theory Spec2Isabelle
  imports Main "HOL-Library.Word"
begin

section \<open>Data model of drivers/s390/cio/device.c\<close>

text \<open>
  Subchannels and ccw devices live in a store indexed by handles (the C pointers).
  A handle that the store does not map is a pointer that does not reach an object.
\<close>

type_synonym sch_ref = nat

type_synonym cdev_ref = nat

text \<open>Error numbers of linux/errno.h, returned negated by the C code.\<close>

definition EIO :: int where "EIO = 5"

definition EAGAIN :: int where "EAGAIN = 11"

definition ENOMEM :: int where "ENOMEM = 12"

definition EBUSY :: int where "EBUSY = 16"

definition ENODEV :: int where "ENODEV = 19"

definition EINVAL :: int where "EINVAL = 22"

text \<open>enum dev_state of device.h (the header is not part of the sources at hand).\<close>

datatype dev_state =
    DEV_STATE_NOT_OPER
  | DEV_STATE_SENSE_PGID
  | DEV_STATE_SENSE_ID
  | DEV_STATE_OFFLINE
  | DEV_STATE_VERIFY
  | DEV_STATE_ONLINE
  | DEV_STATE_W4SENSE
  | DEV_STATE_DISBAND_PGID
  | DEV_STATE_BOXED
  | DEV_STATE_CLEAR_VERIFY
  | DEV_STATE_TIMEOUT_KILL
  | DEV_STATE_QUIESCE
  | DEV_STATE_DISCONNECTED
  | DEV_STATE_DISCONNECTED_SENSE_ID
  | DEV_STATE_CMFCHANGE
  | DEV_STATE_CMFUPDATE

datatype dev_event =
    DEV_EVENT_NOTOPER
  | DEV_EVENT_INTERRUPT
  | DEV_EVENT_TIMEOUT
  | DEV_EVENT_VERIFY

text \<open>The four results of the status classification (CIO_GONE .. CIO_REVALIDATE of css.h).\<close>

datatype cio_status = CIO_GONE | CIO_NO_PATH | CIO_OPER | CIO_REVALIDATE

record ccw_dev_id =
  ssid :: nat
  devno :: nat

record subchannel_id =
  sid_ssid :: nat
  sid_sch_no :: nat

text \<open>
  The part of a ccw driver the core consults: for each optional callback, \<open>None\<close> when the
  driver leaves the pointer NULL, otherwise the value the callback returns.
\<close>

record ccw_driver =
  drv_set_online :: "int option"
  drv_set_offline :: "int option"

text \<open>The work functions a kick_work descriptor is prepared with.\<close>

datatype work_fn =
    WORK_ccw_device_remove_orphan_cb
  | WORK_ccw_device_call_sch_unregister
  | WORK_ccw_device_add_changed
  | WORK_io_subchannel_register
  | WORK_ccw_device_move_to_sch

record ccw_device =
  cdev_online :: bool
  cdev_drv :: "ccw_driver option"
  cdev_parent :: "sch_ref option"
  cdev_refcount :: int
  cdev_freed :: bool
  cdev_ccwlock :: "sch_ref option"
  cdev_cu_type :: nat
  priv_state :: dev_state
  priv_dev_id :: ccw_dev_id
  priv_schid :: subchannel_id
  priv_onoff :: int
  priv_registered :: bool
  priv_timer :: bool
  priv_fake_irb :: bool
  priv_recog_done :: bool
  priv_sch :: "sch_ref option"
  priv_kick_work :: "work_fn option"

record subchannel =
  sch_schid :: subchannel_id
  sch_pmcw_dev :: nat
  sch_pmcw_dnv :: bool
  sch_lpm :: "8 word"
  sch_intparm :: "32 word"
  sch_cdev :: "cdev_ref option"
  sch_refcount :: int
  sch_freed :: bool
  sch_registered :: bool

text \<open>
  Calls into collaborators outside device.c whose effect is not part of this model
  (the device state machine, the css layer, the driver core) are recorded in order.
\<close>

datatype call =
    Call_dev_fsm_event cdev_ref dev_event
  | Call_trigger_reprobe cdev_ref
  | Call_cio_disable_subchannel sch_ref
  | Call_cio_commit_config sch_ref
  | Call_css_update_ssd_info sch_ref
  | Call_css_probe_device subchannel_id
  | Call_notify cdev_ref cio_status
  | Call_device_del cdev_ref
  | Call_queue_slow cdev_ref
  | Call_module_put cdev_ref
  | Call_ccw_device_recognition cdev_ref
  | Call_ccw_device_online cdev_ref
  | Call_ccw_device_offline cdev_ref
  | Call_ccw_device_stlck cdev_ref
  | Call_drv_set_online cdev_ref
  | Call_drv_set_offline cdev_ref

record kstate =
  subchannels :: "sch_ref \<Rightarrow> subchannel option"
  ccw_devices :: "cdev_ref \<Rightarrow> ccw_device option"
  ccw_bus :: "cdev_ref list"
  pseudo_subchannel :: sch_ref
  recovery_timer :: "64 word option"
  recovery_phase :: int
  ccw_device_init_count :: int
  calls :: "call list"

definition log_call :: "call \<Rightarrow> kstate \<Rightarrow> kstate" where
  "log_call c s = s\<lparr>calls := calls s @ [c]\<rparr>"

definition upd_cdev :: "cdev_ref \<Rightarrow> (ccw_device \<Rightarrow> ccw_device) \<Rightarrow> kstate \<Rightarrow> kstate" where
  "upd_cdev c f s =
     (case ccw_devices s c of
        None \<Rightarrow> s
      | Some d \<Rightarrow> s\<lparr>ccw_devices := (ccw_devices s)(c \<mapsto> f d)\<rparr>)"

definition upd_sch :: "sch_ref \<Rightarrow> (subchannel \<Rightarrow> subchannel) \<Rightarrow> kstate \<Rightarrow> kstate" where
  "upd_sch i f s =
     (case subchannels s i of
        None \<Rightarrow> s
      | Some x \<Rightarrow> s\<lparr>subchannels := (subchannels s)(i \<mapsto> f x)\<rparr>)"

section \<open>Recovery scheduler\<close>

text \<open>
  \<^verbatim>\<open>static const unsigned long recovery_delay[] = { 3, 30, 300 };\<close>
  The timer is \<open>None\<close> while not pending and holds its expiry (in jiffies, an unsigned long
  of 64 bits on s390x) while pending. \<open>jiffies\<close> and \<open>HZ\<close> are read from the kernel and
  are parameters here.
\<close>

definition recovery_delay :: "nat list" where
  "recovery_delay = [3, 30, 300]"

text \<open>Reading the table at an int index; outside the array the C code has no defined value.\<close>

definition recovery_delay_at :: "int \<Rightarrow> nat option" where
  "recovery_delay_at i =
     (if 0 \<le> i \<and> i < int (length recovery_delay) then Some (recovery_delay ! nat i) else None)"

definition timer_pending :: "kstate \<Rightarrow> bool" where
  "timer_pending s = (recovery_timer s \<noteq> None)"

definition mod_timer :: "64 word \<Rightarrow> kstate \<Rightarrow> kstate" where
  "mod_timer expires s = s\<lparr>recovery_timer := Some expires\<rparr>"

text \<open>
  \<open>dev_fsm_event\<close> belongs to the device state machine. The parameter \<open>fsm\<close> gives the
  state the machine moves a device to on an event; the call is recorded.
\<close>

definition dev_fsm_event ::
  "(dev_event \<Rightarrow> dev_state \<Rightarrow> dev_state) \<Rightarrow> cdev_ref \<Rightarrow> dev_event \<Rightarrow> kstate \<Rightarrow> kstate" where
  "dev_fsm_event fsm c ev s =
     log_call (Call_dev_fsm_event c ev)
       (upd_cdev c (\<lambda>d. d\<lparr>priv_state := fsm ev (priv_state d)\<rparr>) s)"

text \<open>\<open>recovery_check\<close>: the callback of the scan, with \<open>*redo\<close> passed along.\<close>

definition recovery_check ::
  "(dev_event \<Rightarrow> dev_state \<Rightarrow> dev_state) \<Rightarrow> cdev_ref \<Rightarrow> bool \<times> kstate \<Rightarrow> bool \<times> kstate" where
  "recovery_check fsm c rs =
     (case rs of (redo, s) \<Rightarrow>
        (case ccw_devices s c of
           None \<Rightarrow> (redo, s)
         | Some d \<Rightarrow>
             (case priv_state d of
                DEV_STATE_DISCONNECTED \<Rightarrow> (True, dev_fsm_event fsm c DEV_EVENT_VERIFY s)
              | DEV_STATE_DISCONNECTED_SENSE_ID \<Rightarrow> (True, s)
              | _ \<Rightarrow> (redo, s))))"

text \<open>\<open>bus_for_each_dev(&ccw_bus_type, NULL, &redo, recovery_check)\<close>; the callback never
  returns non-zero, so the scan visits every device on the bus.\<close>

fun bus_for_each_dev_recovery_check ::
  "(dev_event \<Rightarrow> dev_state \<Rightarrow> dev_state) \<Rightarrow> cdev_ref list \<Rightarrow> bool \<times> kstate \<Rightarrow> bool \<times> kstate" where
  "bus_for_each_dev_recovery_check fsm [] rs = rs"
| "bus_for_each_dev_recovery_check fsm (c # cs) rs =
     bus_for_each_dev_recovery_check fsm cs (recovery_check fsm c rs)"

text \<open>
  \<open>recovery_work_func\<close>. The comparison \<open>recovery_phase < ARRAY_SIZE(recovery_delay) - 1\<close>
  converts the int to unsigned long, so a negative phase does not pass it.
  The result is \<open>None\<close> when the table would be read outside its bounds.
\<close>

definition recovery_work_func ::
  "(dev_event \<Rightarrow> dev_state \<Rightarrow> dev_state) \<Rightarrow> 64 word \<Rightarrow> 64 word \<Rightarrow> kstate \<Rightarrow> kstate option" where
  "recovery_work_func fsm jiffies HZ s =
     (case bus_for_each_dev_recovery_check fsm (ccw_bus s) (False, s) of (redo, s1) \<Rightarrow>
        if redo then
          (if \<not> timer_pending s1 then
             (let s2 = (if 0 \<le> recovery_phase s1 \<and>
                           recovery_phase s1 < int (length recovery_delay) - 1
                        then s1\<lparr>recovery_phase := recovery_phase s1 + 1\<rparr> else s1)
              in case recovery_delay_at (recovery_phase s2) of
                   None \<Rightarrow> None
                 | Some dl \<Rightarrow> Some (mod_timer (jiffies + of_nat dl * HZ) s2))
           else Some s1)
        else Some s1)"

text \<open>\<open>ccw_device_schedule_recovery\<close>.\<close>

definition ccw_device_schedule_recovery :: "64 word \<Rightarrow> 64 word \<Rightarrow> kstate \<Rightarrow> kstate" where
  "ccw_device_schedule_recovery jiffies HZ s =
     (if \<not> timer_pending s \<or> recovery_phase s \<noteq> 0
      then mod_timer (jiffies + of_nat (recovery_delay ! 0) * HZ) (s\<lparr>recovery_phase := 0\<rparr>)
      else s)"

section \<open>Status classification\<close>

text \<open>
  \<open>stsch(sch->schid, &schib)\<close> queries the hardware: its condition code (non-zero when the
  query fails) and the fresh pmcw it stores are the parameters of the classification.
\<close>

record fresh_schib =
  fresh_pmcw_dnv :: bool
  fresh_pmcw_dev :: nat

definition io_subchannel_get_status :: "int \<times> fresh_schib \<Rightarrow> subchannel \<Rightarrow> cio_status" where
  "io_subchannel_get_status stsch sch =
     (case stsch of (cc, schib) \<Rightarrow>
        if cc \<noteq> 0 \<or> \<not> fresh_pmcw_dnv schib then CIO_GONE
        else if sch_pmcw_dnv sch \<and> fresh_pmcw_dev schib \<noteq> sch_pmcw_dev sch then CIO_REVALIDATE
        else if sch_lpm sch = 0 then CIO_NO_PATH
        else CIO_OPER)"

definition device_is_disconnected :: "kstate \<Rightarrow> cdev_ref option \<Rightarrow> bool" where
  "device_is_disconnected s cdev =
     (case cdev of
        None \<Rightarrow> False
      | Some c \<Rightarrow>
          (case ccw_devices s c of
             None \<Rightarrow> False
           | Some d \<Rightarrow> priv_state d = DEV_STATE_DISCONNECTED \<or>
                       priv_state d = DEV_STATE_DISCONNECTED_SENSE_ID))"

section \<open>Subchannel event evaluator\<close>

text \<open>\<open>sch_get_cdev\<close> and \<open>sch_set_cdev\<close> of io_sch.h read and write the device pointer in
  the subchannel's private data.\<close>

definition sch_get_cdev :: "kstate \<Rightarrow> sch_ref \<Rightarrow> cdev_ref option" where
  "sch_get_cdev s sch = (case subchannels s sch of None \<Rightarrow> None | Some x \<Rightarrow> sch_cdev x)"

definition sch_set_cdev :: "sch_ref \<Rightarrow> cdev_ref option \<Rightarrow> kstate \<Rightarrow> kstate" where
  "sch_set_cdev sch cdev s = upd_sch sch (\<lambda>x. x\<lparr>sch_cdev := cdev\<rparr>) s"

text \<open>
  Modelled from the spec: \<open>ccw_device_set_timeout(cdev, 0)\<close> of device_fsm.c, which
  cancels the pending timeout of the device.
\<close>

definition ccw_device_set_timeout_0 :: "cdev_ref \<Rightarrow> kstate \<Rightarrow> kstate" where
  "ccw_device_set_timeout_0 c s = upd_cdev c (\<lambda>d. d\<lparr>priv_timer := False\<rparr>) s"

text \<open>
  Modelled from the spec: \<open>css_sch_device_unregister\<close> of css.c removes the subchannel
  from external visibility. The teardown the driver core runs from there is not followed.
\<close>

definition css_sch_device_unregister :: "sch_ref \<Rightarrow> kstate \<Rightarrow> kstate" where
  "css_sch_device_unregister sch s = upd_sch sch (\<lambda>x. x\<lparr>sch_registered := False\<rparr>) s"

text \<open>
  What the evaluator reads from outside device.c: the result of \<open>stsch\<close>, the answer of
  \<open>ccw_device_notify\<close> (which asks the bound driver whether to keep the device), the return
  code of \<open>css_probe_device\<close>, and the clock.
\<close>

record env =
  env_stsch :: "int \<times> fresh_schib"
  env_notify :: "cdev_ref \<Rightarrow> cio_status \<Rightarrow> int"
  env_probe :: int
  env_jiffies :: "64 word"
  env_HZ :: "64 word"

datatype sch_action = NONE | UNREGISTER | UNREGISTER_PROBE | REPROBE | DISC

definition io_subchannel_notify :: "env \<Rightarrow> sch_ref \<Rightarrow> cio_status \<Rightarrow> kstate \<Rightarrow> int \<times> kstate" where
  "io_subchannel_notify e sch event s =
     (case sch_get_cdev s sch of
        None \<Rightarrow> (0, s)
      | Some c \<Rightarrow> (env_notify e c event, log_call (Call_notify c event) s))"

text \<open>\<open>device_set_disconnected\<close>; a NULL device is ignored.\<close>

definition device_set_disconnected :: "env \<Rightarrow> cdev_ref option \<Rightarrow> kstate \<Rightarrow> kstate" where
  "device_set_disconnected e cdev s =
     (case cdev of
        None \<Rightarrow> s
      | Some c \<Rightarrow>
          (let s1 = ccw_device_set_timeout_0 c s;
               s2 = upd_cdev c (\<lambda>d. d\<lparr>priv_fake_irb := False\<rparr>) s1;
               s3 = upd_cdev c (\<lambda>d. d\<lparr>priv_state := DEV_STATE_DISCONNECTED\<rparr>) s2
           in case ccw_devices s3 c of
                None \<Rightarrow> s3
              | Some d \<Rightarrow>
                  if cdev_online d
                  then ccw_device_schedule_recovery (env_jiffies e) (env_HZ e) s3
                  else s3))"

text \<open>\<open>ccw_device_set_notoper\<close> reads \<open>cdev->dev.parent\<close> first: with a NULL or dangling
  device pointer there is no result.\<close>

definition ccw_device_set_notoper :: "cdev_ref option \<Rightarrow> kstate \<Rightarrow> kstate option" where
  "ccw_device_set_notoper cdev s =
     (case cdev of
        None \<Rightarrow> None
      | Some c \<Rightarrow>
          (case ccw_devices s c of
             None \<Rightarrow> None
           | Some d \<Rightarrow>
               (case cdev_parent d of
                  None \<Rightarrow> None
                | Some sch \<Rightarrow>
                    (let s1 = ccw_device_set_timeout_0 c s;
                         s2 = log_call (Call_cio_disable_subchannel sch) s1
                     in Some (upd_cdev c (\<lambda>d. d\<lparr>priv_state := DEV_STATE_NOT_OPER\<rparr>) s2)))))"

text \<open>The body of \<open>case CIO_GONE\<close>, which \<open>case CIO_NO_PATH\<close> falls through to when the
  device is not disconnected.\<close>

definition sch_event_ask_driver :: "env \<Rightarrow> sch_ref \<Rightarrow> cio_status \<Rightarrow> kstate \<Rightarrow> sch_action \<times> kstate" where
  "sch_event_ask_driver e sch event s =
     (case io_subchannel_notify e sch event s of
        (r, s1) \<Rightarrow> if r \<noteq> 0 then (DISC, s1) else (UNREGISTER, s1))"

text \<open>\<open>switch (event)\<close>: analyze subchannel status.\<close>

definition sch_event_action ::
  "env \<Rightarrow> sch_ref \<Rightarrow> cio_status \<Rightarrow> bool \<Rightarrow> kstate \<Rightarrow> sch_action \<times> kstate" where
  "sch_event_action e sch event disc s =
     (case event of
        CIO_NO_PATH \<Rightarrow> if disc then (REPROBE, s) else sch_event_ask_driver e sch event s
      | CIO_GONE \<Rightarrow> sch_event_ask_driver e sch event s
      | CIO_REVALIDATE \<Rightarrow> if disc then (REPROBE, s) else (UNREGISTER_PROBE, s)
      | CIO_OPER \<Rightarrow> if disc then (REPROBE, s) else (NONE, s))"

text \<open>\<open>switch (action)\<close>: perform action, with the lock held around it.\<close>

definition sch_event_perform ::
  "env \<Rightarrow> sch_ref \<Rightarrow> cdev_ref option \<Rightarrow> sch_action \<Rightarrow> kstate \<Rightarrow> kstate option" where
  "sch_event_perform e sch cdev action s =
     (if action = UNREGISTER \<or> action = UNREGISTER_PROBE then
        (case ccw_device_set_notoper cdev s of
           None \<Rightarrow> None
         | Some s1 \<Rightarrow>
             (let s2 = css_sch_device_unregister sch s1;
                  s3 = upd_sch sch (\<lambda>x. x\<lparr>sch_intparm := 0\<rparr>) s2
              in Some (log_call (Call_cio_commit_config sch) s3)))
      else if action = REPROBE then
        (case cdev of None \<Rightarrow> None | Some c \<Rightarrow> Some (log_call (Call_trigger_reprobe c) s))
      else if action = DISC then Some (device_set_disconnected e cdev s)
      else Some s)"

text \<open>\<open>io_subchannel_sch_event(sch, slow)\<close>. The result is the return code and the state,
  or \<open>None\<close> where the C code dereferences a pointer that reaches no object.\<close>

definition io_subchannel_sch_event ::
  "env \<Rightarrow> kstate \<Rightarrow> sch_ref \<Rightarrow> bool \<Rightarrow> (int \<times> kstate) option" where
  "io_subchannel_sch_event e s sch slow =
     (let cdev = sch_get_cdev s sch;
          disc = device_is_disconnected s cdev
      in if disc \<and> slow then Some (0, s)
         else
           (let s1 = (case cdev of None \<Rightarrow> s | Some c \<Rightarrow> ccw_device_set_timeout_0 c s)
            in if \<not> disc \<and> \<not> slow then Some (- EAGAIN, s1)
               else
                 (case subchannels s1 sch of
                    None \<Rightarrow> None
                  | Some x \<Rightarrow>
                      (let event = io_subchannel_get_status (env_stsch e) x
                       in case sch_event_action e sch event disc s1 of
                            (action, s2) \<Rightarrow>
                              (case sch_event_perform e sch cdev action s2 of
                                 None \<Rightarrow> None
                               | Some s3 \<Rightarrow>
                                   if action = UNREGISTER_PROBE
                                   then Some (env_probe e,
                                          log_call (Call_css_probe_device (sch_schid x)) s3)
                                   else Some (0, s3))))))"

section \<open>Reference counting and the driver core\<close>

text \<open>
  Modelled from the spec: \<open>get_device\<close> and \<open>put_device\<close> of the driver core
  (drivers/base/core.c, not part of the sources at hand). Every subchannel and device is
  reference-counted and is destroyed when its count reaches zero: \<open>put_device\<close> then runs
  the release function of the object. \<open>get_device\<close> returns NULL only for a pointer that
  reaches no object.
\<close>

definition get_device_sch :: "sch_ref \<Rightarrow> kstate \<Rightarrow> bool \<times> kstate" where
  "get_device_sch sch s =
     (case subchannels s sch of
        None \<Rightarrow> (False, s)
      | Some x \<Rightarrow> (True, upd_sch sch (\<lambda>x. x\<lparr>sch_refcount := sch_refcount x + 1\<rparr>) s))"

definition put_device_sch :: "sch_ref \<Rightarrow> kstate \<Rightarrow> kstate" where
  "put_device_sch sch s =
     upd_sch sch (\<lambda>x. x\<lparr>sch_refcount := sch_refcount x - 1,
                          sch_freed := (sch_freed x \<or> sch_refcount x - 1 = 0)\<rparr>) s"

definition get_device_cdev :: "cdev_ref \<Rightarrow> kstate \<Rightarrow> bool \<times> kstate" where
  "get_device_cdev c s =
     (case ccw_devices s c of
        None \<Rightarrow> (False, s)
      | Some d \<Rightarrow> (True, upd_cdev c (\<lambda>d. d\<lparr>cdev_refcount := cdev_refcount d + 1\<rparr>) s))"

text \<open>\<open>ccw_device_release\<close>, the release function \<open>io_subchannel_initialize_dev\<close> installs:
  it releases the reference of the parent subchannel and frees the device.\<close>

definition ccw_device_release :: "cdev_ref \<Rightarrow> kstate \<Rightarrow> kstate" where
  "ccw_device_release c s =
     (case ccw_devices s c of
        None \<Rightarrow> s
      | Some d \<Rightarrow>
          (let s1 = (case cdev_parent d of None \<Rightarrow> s | Some p \<Rightarrow> put_device_sch p s)
           in upd_cdev c (\<lambda>d. d\<lparr>cdev_freed := True\<rparr>) s1))"

definition put_device_cdev :: "cdev_ref \<Rightarrow> kstate \<Rightarrow> kstate" where
  "put_device_cdev c s =
     (case ccw_devices s c of
        None \<Rightarrow> s
      | Some d \<Rightarrow>
          (let s1 = upd_cdev c (\<lambda>d. d\<lparr>cdev_refcount := cdev_refcount d - 1\<rparr>) s
           in if cdev_refcount d - 1 = 0 then ccw_device_release c s1 else s1))"

text \<open>
  Modelled from the spec: \<open>device_move\<close> of the driver core physically reparents a device
  and fails atomically. \<open>ret\<close> is its return code.
\<close>

definition device_move :: "int \<Rightarrow> cdev_ref \<Rightarrow> sch_ref \<Rightarrow> kstate \<Rightarrow> kstate" where
  "device_move ret c sch s =
     (if ret = 0 then upd_cdev c (\<lambda>d. d\<lparr>cdev_parent := Some sch\<rparr>) s else s)"

section \<open>Searching for a replacement device\<close>

text \<open>\<open>sch_is_pseudo_sch\<close> of css.c compares with the pseudo subchannel of the channel
  subsystem; the model has one channel subsystem.\<close>

definition sch_is_pseudo_sch :: "kstate \<Rightarrow> sch_ref \<Rightarrow> bool" where
  "sch_is_pseudo_sch s sch = (sch = pseudo_subchannel s)"

text \<open>\<open>ccw_device_is_orphan\<close>. A device on the bus has a parent.\<close>

definition ccw_device_is_orphan :: "kstate \<Rightarrow> ccw_device \<Rightarrow> bool" where
  "ccw_device_is_orphan s d =
     (case cdev_parent d of None \<Rightarrow> False | Some p \<Rightarrow> sch_is_pseudo_sch s p)"

text \<open>Modelled from the spec: \<open>ccw_dev_id_is_equal\<close> of asm/cio.h, exact equality of
  subsystem-id and device-number.\<close>

definition ccw_dev_id_is_equal :: "ccw_dev_id \<Rightarrow> ccw_dev_id \<Rightarrow> bool" where
  "ccw_dev_id_is_equal a b = (ssid a = ssid b \<and> devno a = devno b)"

record match_data =
  md_dev_id :: ccw_dev_id
  md_sibling :: "cdev_ref option"

definition match_devno :: "kstate \<Rightarrow> cdev_ref \<Rightarrow> match_data \<Rightarrow> bool" where
  "match_devno s c d =
     (case ccw_devices s c of
        None \<Rightarrow> False
      | Some dev \<Rightarrow>
          priv_state dev = DEV_STATE_DISCONNECTED \<and>
          \<not> ccw_device_is_orphan s dev \<and>
          ccw_dev_id_is_equal (priv_dev_id dev) (md_dev_id d) \<and>
          Some c \<noteq> md_sibling d)"

text \<open>
  Modelled from the spec: \<open>bus_find_device\<close> of the driver core walks the devices of the
  bus in their enumeration order and returns the first one the match function accepts, with
  a reference taken on it.
\<close>

definition bus_find_device :: "(cdev_ref \<Rightarrow> bool) \<Rightarrow> kstate \<Rightarrow> cdev_ref option \<times> kstate" where
  "bus_find_device m s =
     (case find m (ccw_bus s) of
        None \<Rightarrow> (None, s)
      | Some c \<Rightarrow> (Some c, snd (get_device_cdev c s)))"

definition get_disc_ccwdev_by_dev_id ::
  "ccw_dev_id \<Rightarrow> cdev_ref option \<Rightarrow> kstate \<Rightarrow> cdev_ref option \<times> kstate" where
  "get_disc_ccwdev_by_dev_id dev_id sibling s =
     bus_find_device (\<lambda>c. match_devno s c \<lparr>md_dev_id = dev_id, md_sibling = sibling\<rparr>) s"

definition match_orphan :: "kstate \<Rightarrow> cdev_ref \<Rightarrow> ccw_dev_id \<Rightarrow> bool" where
  "match_orphan s c dev_id =
     (case ccw_devices s c of
        None \<Rightarrow> False
      | Some dev \<Rightarrow> ccw_dev_id_is_equal (priv_dev_id dev) dev_id)"

text \<open>
  Modelled from the spec: \<open>device_find_child\<close> of the driver core walks the children of a
  device and returns the first one the match function accepts, with a reference taken on it.
  The children of a subchannel are the devices of the bus whose parent it is.
\<close>

definition device_find_child ::
  "sch_ref \<Rightarrow> (cdev_ref \<Rightarrow> bool) \<Rightarrow> kstate \<Rightarrow> cdev_ref option \<times> kstate" where
  "device_find_child parent m s =
     (case find m (filter (\<lambda>c. case ccw_devices s c of
                                 None \<Rightarrow> False
                               | Some d \<Rightarrow> cdev_parent d = Some parent) (ccw_bus s)) of
        None \<Rightarrow> (None, s)
      | Some c \<Rightarrow> (Some c, snd (get_device_cdev c s)))"

definition get_orphaned_ccwdev_by_dev_id ::
  "ccw_dev_id \<Rightarrow> kstate \<Rightarrow> cdev_ref option \<times> kstate" where
  "get_orphaned_ccwdev_by_dev_id dev_id s =
     device_find_child (pseudo_subchannel s) (\<lambda>c. match_orphan s c dev_id) s"

section \<open>Device relocation protocol\<close>

text \<open>A device as \<open>kzalloc\<close> returns it, with its private data: every field zero.\<close>

definition zero_ccw_device :: ccw_device where
  "zero_ccw_device = \<lparr>cdev_online = False, cdev_drv = None, cdev_parent = None,
     cdev_refcount = 0, cdev_freed = False, cdev_ccwlock = None, cdev_cu_type = 0,
     priv_state = DEV_STATE_NOT_OPER, priv_dev_id = \<lparr>ssid = 0, devno = 0\<rparr>,
     priv_schid = \<lparr>sid_ssid = 0, sid_sch_no = 0\<rparr>, priv_onoff = 0, priv_registered = False,
     priv_timer = False, priv_fake_irb = False, priv_recog_done = False, priv_sch = None,
     priv_kick_work = None\<rparr>"

text \<open>
  What the relocation reads from outside device.c: the return codes of the two
  \<open>device_move\<close> calls, the outcome of the two \<open>kzalloc\<close> calls (the address of the new
  device, and whether its private data could be allocated) and the return code of
  \<open>ccw_device_recognition\<close>.
\<close>

record reloc_env =
  re_move_orphanage :: int
  re_move_attach :: int
  re_alloc_cdev :: "cdev_ref option"
  re_alloc_private :: bool
  re_recognition :: int

definition io_subchannel_allocate_dev :: "reloc_env \<Rightarrow> kstate \<Rightarrow> (int + cdev_ref) \<times> kstate" where
  "io_subchannel_allocate_dev e s =
     (case re_alloc_cdev e of
        None \<Rightarrow> (Inl (- ENOMEM), s)
      | Some c \<Rightarrow>
          if re_alloc_private e
          then (Inr c, s\<lparr>ccw_devices := (ccw_devices s)(c \<mapsto> zero_ccw_device)\<rparr>)
          else (Inl (- ENOMEM), s))"

text \<open>\<open>device_initialize\<close> starts the reference count of the device at one.\<close>

definition io_subchannel_initialize_dev :: "sch_ref \<Rightarrow> cdev_ref \<Rightarrow> kstate \<Rightarrow> int \<times> kstate" where
  "io_subchannel_initialize_dev sch c s =
     (let s1 = upd_cdev c (\<lambda>d. d\<lparr>priv_onoff := 0, cdev_parent := Some sch,
                                   priv_kick_work := None, cdev_refcount := 1\<rparr>) s
      in case get_device_sch sch s1 of
           (ok, s2) \<Rightarrow> if \<not> ok then (- ENODEV, put_device_cdev c s2) else (0, s2))"

definition io_subchannel_create_ccwdev ::
  "reloc_env \<Rightarrow> sch_ref \<Rightarrow> kstate \<Rightarrow> (int + cdev_ref) \<times> kstate" where
  "io_subchannel_create_ccwdev e sch s =
     (case io_subchannel_allocate_dev e s of
        (Inl err, s1) \<Rightarrow> (Inl err, s1)
      | (Inr c, s1) \<Rightarrow>
          (case io_subchannel_initialize_dev sch c s1 of
             (ret, s2) \<Rightarrow>
               if ret \<noteq> 0 then (Inl ret, upd_cdev c (\<lambda>d. d\<lparr>cdev_freed := True\<rparr>) s2)
               else (Inr c, s2)))"

text \<open>\<open>io_subchannel_recog\<close>: \<open>rc\<close> is the return code of \<open>ccw_device_recognition\<close>, the
  call that starts the asynchronous device sensing.\<close>

definition io_subchannel_recog ::
  "int \<Rightarrow> cdev_ref \<Rightarrow> sch_ref \<Rightarrow> kstate \<Rightarrow> (int \<times> kstate) option" where
  "io_subchannel_recog rc c sch s =
     (case subchannels s sch of
        None \<Rightarrow> None
      | Some x \<Rightarrow>
          (let s1 = sch_set_cdev sch (Some c) s;
               s2 = upd_cdev c (\<lambda>d. d\<lparr>cdev_ccwlock := Some sch,
                      priv_dev_id := \<lparr>ssid = sid_ssid (sch_schid x), devno = sch_pmcw_dev x\<rparr>,
                      priv_schid := sch_schid x, priv_state := DEV_STATE_NOT_OPER,
                      priv_timer := False\<rparr>) s1;
               s3 = s2\<lparr>ccw_device_init_count := ccw_device_init_count s2 + 1\<rparr>;
               s4 = log_call (Call_ccw_device_recognition c) s3
           in if rc \<noteq> 0
              then Some (rc, s4\<lparr>ccw_device_init_count := ccw_device_init_count s4 - 1\<rparr>)
              else Some (rc, s4)))"

definition sch_attach_device :: "sch_ref \<Rightarrow> cdev_ref \<Rightarrow> kstate \<Rightarrow> kstate option" where
  "sch_attach_device sch c s =
     (case subchannels s sch of
        None \<Rightarrow> None
      | Some x \<Rightarrow>
          (let s1 = log_call (Call_css_update_ssd_info sch) s;
               s2 = sch_set_cdev sch (Some c) s1;
               s3 = upd_cdev c (\<lambda>d. d\<lparr>priv_schid := sch_schid x, cdev_ccwlock := Some sch\<rparr>) s2
           in Some (log_call (Call_trigger_reprobe c) s3)))"

definition sch_attach_disconnected_device ::
  "int \<Rightarrow> sch_ref \<Rightarrow> cdev_ref \<Rightarrow> kstate \<Rightarrow> kstate option" where
  "sch_attach_disconnected_device move_ret sch c s =
     (case get_device_sch sch s of
        (ok, s1) \<Rightarrow>
          if \<not> ok then Some s1
          else
            (case ccw_devices s1 c of
               None \<Rightarrow> None
             | Some d \<Rightarrow>
                 (let s2 = device_move move_ret c sch s1
                  in if move_ret \<noteq> 0 then Some (put_device_sch sch s2)
                     else
                       (case cdev_parent d of
                          None \<Rightarrow> None
                        | Some other_sch \<Rightarrow>
                            (let s3 = sch_set_cdev other_sch None s2;
                                 s4 = css_sch_device_unregister other_sch s3
                             in case sch_attach_device sch c s4 of
                                  None \<Rightarrow> None
                                | Some s5 \<Rightarrow> Some (put_device_sch other_sch s5))))))"

definition sch_attach_orphaned_device ::
  "int \<Rightarrow> sch_ref \<Rightarrow> cdev_ref \<Rightarrow> kstate \<Rightarrow> kstate option" where
  "sch_attach_orphaned_device move_ret sch c s =
     (case get_device_sch sch s of
        (ok, s1) \<Rightarrow>
          if \<not> ok then Some s1
          else
            (case ccw_devices s1 c of
               None \<Rightarrow> None
             | Some d \<Rightarrow>
                 (let s2 = device_move move_ret c sch s1
                  in if move_ret \<noteq> 0 then Some (put_device_sch sch s2)
                     else
                       (case sch_attach_device sch c s2 of
                          None \<Rightarrow> None
                        | Some s3 \<Rightarrow>
                            (case cdev_parent d of
                               None \<Rightarrow> None
                             | Some pseudo_sch \<Rightarrow> Some (put_device_sch pseudo_sch s3))))))"

definition sch_create_and_recog_new_device ::
  "reloc_env \<Rightarrow> sch_ref \<Rightarrow> kstate \<Rightarrow> kstate option" where
  "sch_create_and_recog_new_device e sch s =
     (case io_subchannel_create_ccwdev e sch s of
        (Inl err, s1) \<Rightarrow> Some (css_sch_device_unregister sch s1)
      | (Inr c, s1) \<Rightarrow>
          (let s2 = sch_set_cdev sch (Some c) s1
           in case io_subchannel_recog (re_recognition e) c sch s2 of
                None \<Rightarrow> None
              | Some (rc, s3) \<Rightarrow>
                  if rc \<noteq> 0 then
                    (let s4 = sch_set_cdev sch None s3;
                         s5 = css_sch_device_unregister sch s4;
                         s6 = put_device_sch sch s5
                     in Some (put_device_cdev c s6))
                  else Some s3))"

text \<open>The parent a device had before the move is only dereferenced after a successful
  move, so a failed move returns whatever that pointer is.\<close>

text \<open>\<open>ccw_device_move_to_orphanage\<close>, run for the device \<open>c\<close> of the work descriptor.\<close>

definition ccw_device_move_to_orphanage :: "reloc_env \<Rightarrow> cdev_ref \<Rightarrow> kstate \<Rightarrow> kstate option" where
  "ccw_device_move_to_orphanage e c s =
     (case ccw_devices s c of
        None \<Rightarrow> None
      | Some d \<Rightarrow>
     (case cdev_parent d of
        None \<Rightarrow> None
      | Some sch \<Rightarrow>
     (case subchannels s sch of
        None \<Rightarrow> None
      | Some x \<Rightarrow>
          (let dev_id = \<lparr>ssid = sid_ssid (sch_schid x), devno = sch_pmcw_dev x\<rparr>;
               pseudo = pseudo_subchannel s;
               s1 = snd (get_device_sch pseudo s);
               s2 = device_move (re_move_orphanage e) c pseudo s1
           in if re_move_orphanage e \<noteq> 0 then Some (put_device_sch pseudo s2)
              else
                (let s3 = upd_cdev c (\<lambda>d. d\<lparr>cdev_ccwlock := Some pseudo\<rparr>) s2
                 in case get_disc_ccwdev_by_dev_id dev_id (Some c) s3 of
                      (Some r, s4) \<Rightarrow>
                        (case sch_attach_disconnected_device (re_move_attach e) sch r s4 of
                           None \<Rightarrow> None
                         | Some s5 \<Rightarrow> Some (put_device_sch sch (put_device_cdev r s5)))
                    | (None, s4) \<Rightarrow>
                        (case get_orphaned_ccwdev_by_dev_id dev_id s4 of
                           (Some r, s5) \<Rightarrow>
                             (case sch_attach_orphaned_device (re_move_attach e) sch r s5 of
                                None \<Rightarrow> None
                              | Some s6 \<Rightarrow> Some (put_device_sch sch (put_device_cdev r s6)))
                         | (None, s5) \<Rightarrow>
                             (case sch_create_and_recog_new_device e sch s5 of
                                None \<Rightarrow> None
                              | Some s6 \<Rightarrow> Some (put_device_sch sch s6))))))))"

text \<open>\<open>ccw_device_move_to_sch\<close>, run for the device \<open>c\<close> of the work descriptor; the target
  subchannel is \<open>priv->sch\<close>.\<close>

definition ccw_device_move_to_sch :: "int \<Rightarrow> cdev_ref \<Rightarrow> kstate \<Rightarrow> kstate option" where
  "ccw_device_move_to_sch move_ret c s =
     (case ccw_devices s c of
        None \<Rightarrow> None
      | Some d \<Rightarrow>
     (case priv_sch d of
        None \<Rightarrow> None
      | Some sch \<Rightarrow>
     (case cdev_parent d of
        None \<Rightarrow> None
      | Some former_parent \<Rightarrow>
          (case get_device_sch sch s of
             (ok, s1) \<Rightarrow>
               if \<not> ok then Some s1
               else
                 (let s2 = device_move move_ret c sch s1
                  in if move_ret \<noteq> 0 then
                       (let s3 = css_sch_device_unregister sch s2;
                            s4 = put_device_sch sch s3
                        in Some (put_device_cdev c (put_device_sch former_parent s4)))
                     else
                       (let s3 = (if \<not> sch_is_pseudo_sch s2 former_parent then
                                    (let t1 = sch_set_cdev former_parent None s2;
                                         t2 = css_sch_device_unregister former_parent t1;
                                         t3 = upd_sch former_parent (\<lambda>x. x\<lparr>sch_intparm := 0\<rparr>) t2
                                     in log_call (Call_cio_commit_config former_parent) t3)
                                  else s2)
                        in case sch_attach_device sch c s3 of
                             None \<Rightarrow> None
                           | Some s4 \<Rightarrow>
                               Some (put_device_cdev c (put_device_sch former_parent s4))))))))"

section \<open>Online and offline transitions\<close>

text \<open>
  The device state machine (device_fsm.c) is outside device.c. The core reaches it through
  \<open>ccw_device_online\<close>, \<open>ccw_device_offline\<close>, \<open>ccw_device_recognition\<close> and
  \<open>ccw_device_stlck\<close>, each with a return code and a state it leaves the device in, and
  waits on the device's wait queue until the machine has settled. Each answer is a parameter,
  given as a function of the state the device is in; a wait that never ends is \<open>None\<close>.
\<close>

record fsm =
  fsm_online :: "dev_state \<Rightarrow> int \<times> dev_state"
  fsm_offline :: "dev_state \<Rightarrow> int \<times> dev_state"
  fsm_recognition :: "dev_state \<Rightarrow> int \<times> dev_state"
  fsm_settle :: "dev_state \<Rightarrow> dev_state option"
  fsm_recog_done :: "dev_state \<Rightarrow> (dev_state \<times> nat) option"
  fsm_event :: "dev_event \<Rightarrow> dev_state \<Rightarrow> dev_state"
  fsm_stlck :: "dev_state \<Rightarrow> int \<times> dev_state"

definition fsm_call ::
  "call \<Rightarrow> (dev_state \<Rightarrow> int \<times> dev_state) \<Rightarrow> cdev_ref \<Rightarrow> kstate \<Rightarrow> (int \<times> kstate) option" where
  "fsm_call a f c s =
     (case ccw_devices s c of
        None \<Rightarrow> None
      | Some d \<Rightarrow>
          Some (fst (f (priv_state d)),
                log_call a (upd_cdev c (\<lambda>d. d\<lparr>priv_state := snd (f (priv_state d))\<rparr>) s)))"

text \<open>\<open>wait_event(cdev->private->wait_q, dev_fsm_final_state(cdev))\<close>.\<close>

definition wait_final_state :: "fsm \<Rightarrow> cdev_ref \<Rightarrow> kstate \<Rightarrow> kstate option" where
  "wait_final_state f c s =
     (case ccw_devices s c of
        None \<Rightarrow> None
      | Some d \<Rightarrow>
          (case fsm_settle f (priv_state d) of
             None \<Rightarrow> None
           | Some st \<Rightarrow> Some (upd_cdev c (\<lambda>d. d\<lparr>priv_state := st\<rparr>) s)))"

text \<open>\<open>wait_event(cdev->private->wait_q, cdev->private->flags.recog_done)\<close>: recognition
  leaves a state and the sensed control unit type.\<close>

definition wait_recog_done :: "fsm \<Rightarrow> cdev_ref \<Rightarrow> kstate \<Rightarrow> kstate option" where
  "wait_recog_done f c s =
     (case ccw_devices s c of
        None \<Rightarrow> None
      | Some d \<Rightarrow>
          (case fsm_recog_done f (priv_state d) of
             None \<Rightarrow> None
           | Some (st, cu) \<Rightarrow>
               Some (upd_cdev c (\<lambda>d. d\<lparr>priv_state := st, cdev_cu_type := cu,
                                        priv_recog_done := True\<rparr>) s)))"

text \<open>\<open>ccw_device_set_offline\<close>.\<close>

definition ccw_device_set_offline ::
  "fsm \<Rightarrow> cdev_ref option \<Rightarrow> kstate \<Rightarrow> (int \<times> kstate) option" where
  "ccw_device_set_offline f cdev s =
     (case cdev of
        None \<Rightarrow> Some (- ENODEV, s)
      | Some c \<Rightarrow>
     (case ccw_devices s c of
        None \<Rightarrow> None
      | Some d \<Rightarrow>
     (case cdev_drv d of
        None \<Rightarrow> Some (- EINVAL, s)
      | Some drv \<Rightarrow>
          if \<not> cdev_online d then Some (- EINVAL, s)
          else
            (let cb = (case drv_set_offline drv of None \<Rightarrow> 0 | Some r \<Rightarrow> r);
                 s1 = (case drv_set_offline drv of
                         None \<Rightarrow> s
                       | Some r \<Rightarrow> log_call (Call_drv_set_offline c) s)
             in if cb \<noteq> 0 then Some (cb, s1)
                else
                  (let s2 = upd_cdev c (\<lambda>d. d\<lparr>cdev_online := False\<rparr>) s1
                   in case fsm_call (Call_ccw_device_offline c) (fsm_offline f) c s2 of
                        None \<Rightarrow> None
                      | Some (ret, s3) \<Rightarrow>
                          if ret = - ENODEV then
                            (case ccw_devices s3 c of
                               None \<Rightarrow> None
                             | Some d3 \<Rightarrow>
                                 (let s4 = (if priv_state d3 \<noteq> DEV_STATE_NOT_OPER
                                            then dev_fsm_event (fsm_event f) c DEV_EVENT_NOTOPER
                                                   (upd_cdev c
                                                      (\<lambda>d. d\<lparr>priv_state := DEV_STATE_OFFLINE\<rparr>) s3)
                                            else s3)
                                  in Some (ret, put_device_cdev c s4)))
                          else if ret = 0 then
                            (case wait_final_state f c s3 of
                               None \<Rightarrow> None
                             | Some s4 \<Rightarrow> Some (ret, put_device_cdev c s4))
                          else Some (ret, upd_cdev c (\<lambda>d. d\<lparr>cdev_online := True\<rparr>) s3))))))"

text \<open>What \<open>ccw_device_set_online\<close> does once the driver's \<open>set_online\<close> callback has
  failed: the device is taken offline again and the online reference is given up.\<close>

definition set_online_undo :: "fsm \<Rightarrow> cdev_ref \<Rightarrow> kstate \<Rightarrow> (int \<times> kstate) option" where
  "set_online_undo f c s =
     (case fsm_call (Call_ccw_device_offline c) (fsm_offline f) c s of
        None \<Rightarrow> None
      | Some (ret, s1) \<Rightarrow>
          if ret = 0 then
            (case wait_final_state f c s1 of
               None \<Rightarrow> None
             | Some s2 \<Rightarrow> Some (- ENODEV, put_device_cdev c s2))
          else Some (ret, put_device_cdev c s1))"

text \<open>\<open>ccw_device_set_online\<close>.\<close>

definition ccw_device_set_online ::
  "fsm \<Rightarrow> cdev_ref option \<Rightarrow> kstate \<Rightarrow> (int \<times> kstate) option" where
  "ccw_device_set_online f cdev s =
     (case cdev of
        None \<Rightarrow> Some (- ENODEV, s)
      | Some c \<Rightarrow>
     (case ccw_devices s c of
        None \<Rightarrow> None
      | Some d \<Rightarrow>
     (case cdev_drv d of
        None \<Rightarrow> Some (- EINVAL, s)
      | Some drv \<Rightarrow>
          if cdev_online d then Some (- EINVAL, s)
          else
            (case get_device_cdev c s of
               (ok, s1) \<Rightarrow>
                 if \<not> ok then Some (- ENODEV, s1)
                 else
                   (case fsm_call (Call_ccw_device_online c) (fsm_online f) c s1 of
                      None \<Rightarrow> None
                    | Some (ret, s2) \<Rightarrow>
                        if ret \<noteq> 0 then Some (ret, put_device_cdev c s2)
                        else
                          (case wait_final_state f c s2 of
                             None \<Rightarrow> None
                           | Some s3 \<Rightarrow>
                               (case ccw_devices s3 c of
                                  None \<Rightarrow> None
                                | Some d3 \<Rightarrow>
                                    if priv_state d3 \<noteq> DEV_STATE_ONLINE
                                    then Some (- ENODEV, put_device_cdev c s3)
                                    else
                                      (case drv_set_online drv of
                                         None \<Rightarrow>
                                           Some (0, upd_cdev c
                                                      (\<lambda>d. d\<lparr>cdev_online := True\<rparr>) s3)
                                       | Some r \<Rightarrow>
                                           (let s4 = log_call (Call_drv_set_online c) s3
                                            in if r = 0
                                               then Some (0, upd_cdev c
                                                      (\<lambda>d. d\<lparr>cdev_online := True\<rparr>) s4)
                                               else set_online_undo f c s4)))))))))"

section \<open>The online attribute\<close>

text \<open>\<open>ccw_device_remove_disconnected\<close>: a forced offline in disconnected state throws the
  device away through the slow work queue.\<close>

definition ccw_device_remove_disconnected :: "cdev_ref \<Rightarrow> kstate \<Rightarrow> kstate" where
  "ccw_device_remove_disconnected c s =
     (case get_device_cdev c s of
        (ok, s1) \<Rightarrow>
          if \<not> ok then s1
          else
            (case ccw_devices s1 c of
               None \<Rightarrow> s1
             | Some d \<Rightarrow>
                 (let s2 = (if ccw_device_is_orphan s1 d
                            then upd_cdev c (\<lambda>d. d\<lparr>priv_state := DEV_STATE_NOT_OPER,
                                   priv_kick_work := Some WORK_ccw_device_remove_orphan_cb\<rparr>) s1
                            else upd_cdev c (\<lambda>d. d\<lparr>priv_kick_work :=
                                   Some WORK_ccw_device_call_sch_unregister\<rparr>) s1)
                  in log_call (Call_queue_slow c) s2)))"

definition online_store_handle_offline :: "fsm \<Rightarrow> cdev_ref \<Rightarrow> kstate \<Rightarrow> kstate option" where
  "online_store_handle_offline f c s =
     (case ccw_devices s c of
        None \<Rightarrow> None
      | Some d \<Rightarrow>
          if priv_state d = DEV_STATE_DISCONNECTED
          then Some (ccw_device_remove_disconnected c s)
          else
            (case cdev_drv d of
               None \<Rightarrow> Some s
             | Some drv \<Rightarrow>
                 if drv_set_offline drv \<noteq> None
                 then map_option snd (ccw_device_set_offline f (Some c) s)
                 else Some s))"

definition online_store_recog_and_online ::
  "fsm \<Rightarrow> cdev_ref \<Rightarrow> kstate \<Rightarrow> (int \<times> kstate) option" where
  "online_store_recog_and_online f c s =
     (case ccw_devices s c of
        None \<Rightarrow> None
      | Some d \<Rightarrow>
          (let recog =
                 (if cdev_cu_type d = 0 then
                    (case fsm_call (Call_ccw_device_recognition c) (fsm_recognition f) c s of
                       None \<Rightarrow> None
                     | Some (ret, s1) \<Rightarrow>
                         if ret \<noteq> 0 then Some (ret, s1)
                         else map_option (\<lambda>s2. (0, s2)) (wait_recog_done f c s1))
                  else Some (0, s))
           in case recog of
                None \<Rightarrow> None
              | Some (ret, s2) \<Rightarrow>
                  if ret \<noteq> 0 then Some (ret, s2)
                  else
                    (case cdev_drv d of
                       None \<Rightarrow> Some (0, s2)
                     | Some drv \<Rightarrow>
                         if drv_set_online drv \<noteq> None
                         then map_option (\<lambda>r. (0, snd r)) (ccw_device_set_online f (Some c) s2)
                         else Some (0, s2))))"

definition online_store_handle_online ::
  "fsm \<Rightarrow> cdev_ref \<Rightarrow> bool \<Rightarrow> kstate \<Rightarrow> (int \<times> kstate) option" where
  "online_store_handle_online f c force s =
     (case online_store_recog_and_online f c s of
        None \<Rightarrow> None
      | Some (ret, s1) \<Rightarrow>
          if ret \<noteq> 0 then Some (ret, s1)
          else
            (case ccw_devices s1 c of
               None \<Rightarrow> None
             | Some d1 \<Rightarrow>
                 if force \<and> priv_state d1 = DEV_STATE_BOXED then
                   (case fsm_call (Call_ccw_device_stlck c) (fsm_stlck f) c s1 of
                      None \<Rightarrow> None
                    | Some (ret2, s2) \<Rightarrow>
                        if ret2 \<noteq> 0 then Some (ret2, s2)
                        else
                          (let s3 = (if cdev_cu_type d1 = 0
                                     then upd_cdev c
                                            (\<lambda>d. d\<lparr>priv_state := DEV_STATE_NOT_OPER\<rparr>) s2
                                     else s2)
                           in map_option (\<lambda>r. (0, snd r))
                                (online_store_recog_and_online f c s3)))
                 else Some (0, s1)))"

text \<open>\<open>strncmp(a, b, n) == 0\<close> on strings without NUL inside: the first \<open>n\<close> characters
  agree, the terminators included.\<close>

definition strncmp_eq :: "string \<Rightarrow> string \<Rightarrow> nat \<Rightarrow> bool" where
  "strncmp_eq a b n = (take n (a @ [CHR 0x00]) = take n (b @ [CHR 0x00]))"

text \<open>What \<open>online_store\<close> reads from outside device.c: whether \<open>try_module_get\<close> succeeds,
  and the return code and value of \<open>strict_strtoul(buf, 16, &i)\<close>.\<close>

record store_env =
  se_try_module_get :: bool
  se_strict_strtoul :: "string \<Rightarrow> int \<times> nat"

text \<open>\<open>online_store\<close>: a write of \<open>count\<close> bytes \<open>buf\<close> to the online attribute of device
  \<open>c\<close>. \<open>atomic_cmpxchg(&onoff, 0, 1)\<close> marks a request in flight. \<open>count\<close> is a
  \<open>size_t\<close> of 64 bits; \<open>ret = count\<close> stores it in an \<open>int\<close> of 32 bits, which the return
  as \<open>ssize_t\<close> sign-extends.\<close>

definition online_store ::
  "fsm \<Rightarrow> store_env \<Rightarrow> cdev_ref \<Rightarrow> string \<Rightarrow> 64 word \<Rightarrow> kstate \<Rightarrow> (int \<times> kstate) option"
  where
  "online_store f e c buf count s =
     (case ccw_devices s c of
        None \<Rightarrow> None
      | Some d \<Rightarrow>
          if priv_onoff d \<noteq> 0 then Some (- EAGAIN, s)
          else
            (let s1 = upd_cdev c (\<lambda>d. d\<lparr>priv_onoff := 1\<rparr>) s
             in if cdev_drv d \<noteq> None \<and> \<not> se_try_module_get e
                then Some (- EINVAL, upd_cdev c (\<lambda>d. d\<lparr>priv_onoff := 0\<rparr>) s1)
                else
                  (let force = strncmp_eq buf (''force'' @ [CHR 0x0A]) (unat count);
                       ret = (if force then 0 else fst (se_strict_strtoul e buf));
                       i = (if force then 1 else snd (se_strict_strtoul e buf));
                       r = (if ret \<noteq> 0 then Some (ret, s1)
                            else if i = 0 then
                              map_option (\<lambda>s2. (sint (ucast count :: 32 word), s2))
                                (online_store_handle_offline f c s1)
                            else if i = 1 then
                              map_option
                                (\<lambda>r. (if fst r = 0 then sint (ucast count :: 32 word)
                                      else fst r, snd r))
                                (online_store_handle_online f c force s1)
                            else Some (- EINVAL, s1))
                   in case r of
                        None \<Rightarrow> None
                      | Some (ret', s2) \<Rightarrow>
                          (let s3 = (if cdev_drv d \<noteq> None
                                     then log_call (Call_module_put c) s2 else s2)
                           in Some (ret', upd_cdev c (\<lambda>d. d\<lparr>priv_onoff := 0\<rparr>) s3)))))"

section \<open>Notions used in the statements\<close>

text \<open>A device still needs retry when the scan finds it in DISCONNECTED or
  DISCONNECTED_SENSE_ID.\<close>

definition needs_retry :: "kstate \<Rightarrow> cdev_ref \<Rightarrow> bool" where
  "needs_retry s c =
     (case ccw_devices s c of
        None \<Rightarrow> False
      | Some d \<Rightarrow> priv_state d = DEV_STATE_DISCONNECTED \<or>
                  priv_state d = DEV_STATE_DISCONNECTED_SENSE_ID)"

text \<open>
  Modelled from the spec: the kernel timer (kernel/timer.c, not part of device.c). When the
  single recovery timer fires it is no longer pending; its handler \<open>recovery_func\<close> only
  queues \<open>recovery_work\<close>, whose function is \<open>recovery_work_func\<close>.
\<close>

definition recovery_timer_expires :: "kstate \<Rightarrow> kstate" where
  "recovery_timer_expires s = s\<lparr>recovery_timer := None\<rparr>"

text \<open>\<open>n\<close> firings in a row, the \<open>k\<close>-th at time \<open>jf k\<close>, with no \<open>schedule()\<close> in between.\<close>

fun recovery_firings ::
  "(dev_event \<Rightarrow> dev_state \<Rightarrow> dev_state) \<Rightarrow> (nat \<Rightarrow> 64 word) \<Rightarrow> 64 word \<Rightarrow> nat \<Rightarrow> kstate
     \<Rightarrow> kstate option" where
  "recovery_firings fsm jf HZ 0 s = Some s"
| "recovery_firings fsm jf HZ (Suc n) s =
     (case recovery_firings fsm jf HZ n s of
        None \<Rightarrow> None
      | Some sn \<Rightarrow> recovery_work_func fsm (jf n) HZ (recovery_timer_expires sn))"

text \<open>Each of the first \<open>n\<close> firings still finds a device that needs retry.\<close>

definition still_disconnected ::
  "(dev_event \<Rightarrow> dev_state \<Rightarrow> dev_state) \<Rightarrow> (nat \<Rightarrow> 64 word) \<Rightarrow> 64 word \<Rightarrow> nat \<Rightarrow> kstate
     \<Rightarrow> bool" where
  "still_disconnected fsm jf HZ n s =
     (\<forall>k<n. case recovery_firings fsm jf HZ k s of
               None \<Rightarrow> False
             | Some sk \<Rightarrow> (\<exists>c\<in>set (ccw_bus sk). needs_retry sk c))"

text \<open>The action table as the specification words it, over the status, the disconnected
  flag and the answer of the driver's notify callback.\<close>

definition spec_action :: "cio_status \<Rightarrow> bool \<Rightarrow> int \<Rightarrow> sch_action" where
  "spec_action status disc notify =
     (if status = CIO_NO_PATH \<and> disc then REPROBE
      else if status = CIO_NO_PATH \<or> status = CIO_GONE then
        (if notify \<noteq> 0 then DISC else UNREGISTER)
      else if status = CIO_REVALIDATE then (if disc then REPROBE else UNREGISTER_PROBE)
      else (if disc then REPROBE else NONE))"

text \<open>The state \<open>ccw_device_move_to_orphanage\<close> has reached when its first \<open>device_move\<close>
  has succeeded and the lock pointer is switched, and the identity it then searches for.\<close>

definition orphanage_reparented :: "cdev_ref \<Rightarrow> kstate \<Rightarrow> kstate" where
  "orphanage_reparented c s =
     upd_cdev c (\<lambda>d. d\<lparr>cdev_ccwlock := Some (pseudo_subchannel s)\<rparr>)
       (device_move 0 c (pseudo_subchannel s) (snd (get_device_sch (pseudo_subchannel s) s)))"

definition target_dev_id :: "subchannel \<Rightarrow> ccw_dev_id" where
  "target_dev_id x = \<lparr>ssid = sid_ssid (sch_schid x), devno = sch_pmcw_dev x\<rparr>"

text \<open>The online flag and the reference count of a device, as a caller reads them.\<close>

definition online_of :: "kstate \<Rightarrow> cdev_ref \<Rightarrow> bool option" where
  "online_of s c = map_option cdev_online (ccw_devices s c)"

definition refcount_of :: "kstate \<Rightarrow> cdev_ref \<Rightarrow> int option" where
  "refcount_of s c = map_option cdev_refcount (ccw_devices s c)"

text \<open>The state in which the in-flight marker of device \<open>c\<close> holds \<open>v\<close>
  (\<open>atomic_set(&cdev->private->onoff, v)\<close>).\<close>

definition mark_onoff :: "cdev_ref \<Rightarrow> int \<Rightarrow> kstate \<Rightarrow> kstate" where
  "mark_onoff c v s = upd_cdev c (\<lambda>d. d\<lparr>priv_onoff := v\<rparr>) s"

section \<open>Example objects\<close>

text \<open>A small system used to run the model: subchannel 10 carries device 1; subchannel 0 is
  the orphan pseudo-subchannel.\<close>

definition ex_dev :: ccw_device where
  "ex_dev = \<lparr>cdev_online = True, cdev_drv = None, cdev_parent = Some 10, cdev_refcount = 2,
     cdev_freed = False, cdev_ccwlock = Some 10, cdev_cu_type = 0x3990, priv_state = DEV_STATE_ONLINE,
     priv_dev_id = \<lparr>ssid = 0, devno = 0x1234\<rparr>,
     priv_schid = \<lparr>sid_ssid = 0, sid_sch_no = 5\<rparr>, priv_onoff = 0, priv_registered = True,
     priv_timer = True, priv_fake_irb = False, priv_recog_done = True, priv_sch = None,
     priv_kick_work = None\<rparr>"

definition ex_sch :: subchannel where
  "ex_sch = \<lparr>sch_schid = \<lparr>sid_ssid = 0, sid_sch_no = 5\<rparr>, sch_pmcw_dev = 0x1234,
     sch_pmcw_dnv = True, sch_lpm = 0x80, sch_intparm = 7, sch_cdev = Some 1,
     sch_refcount = 3, sch_freed = False, sch_registered = True\<rparr>"

definition ex_pseudo :: subchannel where
  "ex_pseudo = \<lparr>sch_schid = \<lparr>sid_ssid = 0, sid_sch_no = 0\<rparr>, sch_pmcw_dev = 0,
     sch_pmcw_dnv = False, sch_lpm = 0, sch_intparm = 0, sch_cdev = None,
     sch_refcount = 1, sch_freed = False, sch_registered = True\<rparr>"

definition ex_state :: kstate where
  "ex_state = \<lparr>subchannels = [0 \<mapsto> ex_pseudo, 10 \<mapsto> ex_sch],
     ccw_devices = [1 \<mapsto> ex_dev], ccw_bus = [1], pseudo_subchannel = 0,
     recovery_timer = None, recovery_phase = 0, ccw_device_init_count = 0, calls = []\<rparr>"

text \<open>The same system with device 1 waiting for its sense-id to finish.\<close>

definition ex_state_sense :: kstate where
  "ex_state_sense = ex_state\<lparr>ccw_devices :=
     [1 \<mapsto> ex_dev\<lparr>priv_state := DEV_STATE_DISCONNECTED_SENSE_ID\<rparr>]\<rparr>"

text \<open>Device 1 disconnected, with its timeout still pending.\<close>

definition ex_state_disc :: kstate where
  "ex_state_disc = ex_state\<lparr>ccw_devices :=
     [1 \<mapsto> ex_dev\<lparr>priv_state := DEV_STATE_DISCONNECTED\<rparr>]\<rparr>"

text \<open>An environment where the hardware answers with the known device number, and one
  where the subchannel reports another device number.\<close>

definition ex_env :: env where
  "ex_env = \<lparr>env_stsch = (0, \<lparr>fresh_pmcw_dnv = True, fresh_pmcw_dev = 0x1234\<rparr>),
     env_notify = (\<lambda>c ev. 0), env_probe = 0, env_jiffies = 1000, env_HZ = 100\<rparr>"

definition ex_env_reval :: env where
  "ex_env_reval = ex_env\<lparr>env_stsch := (0, \<lparr>fresh_pmcw_dnv = True, fresh_pmcw_dev = 0x4321\<rparr>),
     env_probe := 0\<rparr>"

text \<open>An environment where \<open>stsch\<close> fails, so that the device counts as gone, and the
  system with no path left to subchannel 10.\<close>

definition ex_env_gone :: env where
  "ex_env_gone = ex_env\<lparr>env_stsch := (3, \<lparr>fresh_pmcw_dnv = False, fresh_pmcw_dev = 0\<rparr>)\<rparr>"

definition ex_state_nopath :: kstate where
  "ex_state_nopath = ex_state\<lparr>subchannels := [0 \<mapsto> ex_pseudo, 10 \<mapsto> ex_sch\<lparr>sch_lpm := 0\<rparr>]\<rparr>"

text \<open>
  A system in the middle of a renumbering: subchannel 10, which carried device 1 (0.0.1234),
  now reports device number 5678. Device 2 (0.0.5678) is disconnected on subchannel 11 and
  device 3 (0.0.5678) sits in the orphanage.
\<close>

definition ex_reloc :: kstate where
  "ex_reloc = \<lparr>subchannels =
       [0 \<mapsto> ex_pseudo\<lparr>sch_refcount := 3\<rparr>,
        10 \<mapsto> ex_sch\<lparr>sch_pmcw_dev := 0x5678\<rparr>,
        11 \<mapsto> ex_sch\<lparr>sch_schid := \<lparr>sid_ssid = 0, sid_sch_no = 6\<rparr>, sch_pmcw_dev := 0x5678,
                       sch_cdev := Some 2\<rparr>],
     ccw_devices =
       [1 \<mapsto> ex_dev\<lparr>priv_state := DEV_STATE_DISCONNECTED\<rparr>,
        2 \<mapsto> ex_dev\<lparr>priv_state := DEV_STATE_DISCONNECTED, cdev_parent := Some 11,
                       cdev_ccwlock := Some 11, priv_dev_id := \<lparr>ssid = 0, devno = 0x5678\<rparr>,
                       priv_schid := \<lparr>sid_ssid = 0, sid_sch_no = 6\<rparr>\<rparr>,
        3 \<mapsto> ex_dev\<lparr>priv_state := DEV_STATE_DISCONNECTED, cdev_parent := Some 0,
                       cdev_ccwlock := Some 0, priv_dev_id := \<lparr>ssid = 0, devno = 0x5678\<rparr>\<rparr>],
     ccw_bus = [1, 3, 2], pseudo_subchannel = 0, recovery_timer = None, recovery_phase = 0,
     ccw_device_init_count = 0, calls = []\<rparr>"

text \<open>The same system when neither candidate is on the bus.\<close>

definition ex_reloc_new :: kstate where
  "ex_reloc_new = ex_reloc\<lparr>ccw_bus := [1]\<rparr>"

text \<open>An environment in which every outside call of the relocation succeeds; the new
  device would be allocated at handle 4.\<close>

definition ex_reloc_env :: reloc_env where
  "ex_reloc_env = \<lparr>re_move_orphanage = 0, re_move_attach = 0, re_alloc_cdev = Some 4,
     re_alloc_private = True, re_recognition = 0\<rparr>"

text \<open>Device 2 queued for a move to the freshly probed subchannel 12.\<close>

definition ex_to_sch :: kstate where
  "ex_to_sch = ex_reloc\<lparr>subchannels := (subchannels ex_reloc)
       (12 \<mapsto> ex_sch\<lparr>sch_schid := \<lparr>sid_ssid = 0, sid_sch_no = 7\<rparr>, sch_pmcw_dev := 0x5678,
                      sch_cdev := None, sch_refcount := 1\<rparr>),
     ccw_devices := (ccw_devices ex_reloc)
       (2 \<mapsto> ex_dev\<lparr>priv_state := DEV_STATE_DISCONNECTED, cdev_parent := Some 11,
                     cdev_ccwlock := Some 11, priv_dev_id := \<lparr>ssid = 0, devno = 0x5678\<rparr>,
                     priv_schid := \<lparr>sid_ssid = 0, sid_sch_no = 6\<rparr>, priv_sch := Some 12,
                     cdev_refcount := 3\<rparr>)\<rparr>"

text \<open>A state machine in which every request succeeds and the device settles where the
  request left it, a driver whose \<open>set_online\<close> callback fails with -EIO, and device 1 bound
  to that driver: once online, once offline.\<close>

definition ex_fsm :: fsm where
  "ex_fsm = \<lparr>fsm_online = (\<lambda>st. (0, DEV_STATE_ONLINE)),
     fsm_offline = (\<lambda>st. (0, DEV_STATE_OFFLINE)),
     fsm_recognition = (\<lambda>st. (0, DEV_STATE_SENSE_ID)),
     fsm_settle = (\<lambda>st. Some st),
     fsm_recog_done = (\<lambda>st. Some (DEV_STATE_OFFLINE, 0x3990)),
     fsm_event = (\<lambda>ev st. if ev = DEV_EVENT_NOTOPER then DEV_STATE_NOT_OPER else st),
     fsm_stlck = (\<lambda>st. (0, st))\<rparr>"

definition ex_drv :: ccw_driver where
  "ex_drv = \<lparr>drv_set_online = Some (- 5), drv_set_offline = Some 0\<rparr>"

definition ex_state_drv :: kstate where
  "ex_state_drv = ex_state\<lparr>ccw_devices := [1 \<mapsto> ex_dev\<lparr>cdev_drv := Some ex_drv\<rparr>]\<rparr>"

definition ex_state_off :: kstate where
  "ex_state_off = ex_state\<lparr>ccw_devices :=
     [1 \<mapsto> ex_dev\<lparr>cdev_drv := Some ex_drv, cdev_online := False,
                    priv_state := DEV_STATE_OFFLINE, cdev_refcount := 1\<rparr>]\<rparr>"

section \<open>Properties of the recovery scheduler\<close>

lemma recovery_check_redo:
  "fst (recovery_check fsm c (redo, s)) = (redo \<or> needs_retry s c)"
  by (auto simp: recovery_check_def needs_retry_def split: option.splits dev_state.splits)

lemma recovery_check_same:
  "\<not> needs_retry s c \<Longrightarrow> snd (recovery_check fsm c (redo, s)) = s"
  by (auto simp: recovery_check_def needs_retry_def split: option.splits dev_state.splits)

lemma recovery_check_frame:
  "recovery_timer (snd (recovery_check fsm c (redo, s))) = recovery_timer s \<and>
   recovery_phase (snd (recovery_check fsm c (redo, s))) = recovery_phase s \<and>
   ccw_bus (snd (recovery_check fsm c (redo, s))) = ccw_bus s"
  by (auto simp: recovery_check_def dev_fsm_event_def log_call_def upd_cdev_def
      split: option.splits dev_state.splits)

lemma scan_redo:
  "fst (bus_for_each_dev_recovery_check fsm cs (redo, s)) =
     (redo \<or> (\<exists>c\<in>set cs. needs_retry s c))"
proof (induction cs arbitrary: redo s)
  case Nil
  then show ?case by simp
next
  case (Cons c cs)
  obtain r1 s1 where rc: "recovery_check fsm c (redo, s) = (r1, s1)"
    by (cases "recovery_check fsm c (redo, s)")
  have r1: "r1 = (redo \<or> needs_retry s c)"
    using recovery_check_redo[of fsm c redo s] rc by simp
  show ?case
  proof (cases "needs_retry s c")
    case True
    then show ?thesis using Cons.IH[of r1 s1] rc r1 by simp
  next
    case False
    then have "s1 = s" using recovery_check_same[of s c fsm redo] rc by simp
    then show ?thesis using Cons.IH[of r1 s1] rc r1 False by simp
  qed
qed

lemma scan_frame:
  "recovery_timer (snd (bus_for_each_dev_recovery_check fsm cs (redo, s))) = recovery_timer s \<and>
   recovery_phase (snd (bus_for_each_dev_recovery_check fsm cs (redo, s))) = recovery_phase s \<and>
   ccw_bus (snd (bus_for_each_dev_recovery_check fsm cs (redo, s))) = ccw_bus s"
proof (induction cs arbitrary: redo s)
  case Nil
  then show ?case by simp
next
  case (Cons c cs)
  obtain r1 s1 where rc: "recovery_check fsm c (redo, s) = (r1, s1)"
    by (cases "recovery_check fsm c (redo, s)")
  show ?case using Cons.IH[of r1 s1] recovery_check_frame[of fsm c redo s] rc by simp
qed

lemma scan_none:
  "\<forall>c\<in>set cs. \<not> needs_retry s c \<Longrightarrow>
     bus_for_each_dev_recovery_check fsm cs (redo, s) = (redo, s)"
proof (induction cs arbitrary: redo s)
  case Nil
  then show ?case by simp
next
  case (Cons c cs)
  have a: "recovery_check fsm c (redo, s) = (redo, s)"
    using recovery_check_redo[of fsm c redo s] recovery_check_same[of s c fsm redo] Cons.prems
    by (cases "recovery_check fsm c (redo, s)") simp
  show ?case using Cons a by simp
qed

lemma work_step:
  assumes "\<exists>c\<in>set (ccw_bus s). needs_retry s c" "\<not> timer_pending s"
    "0 \<le> recovery_phase s" "recovery_phase s \<le> 2"
  shows "\<exists>s'. recovery_work_func fsm j HZ s = Some s' \<and>
      recovery_phase s' = min (recovery_phase s + 1) 2 \<and>
      recovery_timer s' = Some (j + of_nat (recovery_delay ! nat (recovery_phase s')) * HZ) \<and>
      ccw_bus s' = ccw_bus s"
proof -
  obtain r1 s1 where sc: "bus_for_each_dev_recovery_check fsm (ccw_bus s) (False, s) = (r1, s1)"
    by (cases "bus_for_each_dev_recovery_check fsm (ccw_bus s) (False, s)")
  have r1: "r1" using scan_redo[of fsm "ccw_bus s" False s] sc assms(1) by simp
  have fr: "recovery_timer s1 = recovery_timer s" "recovery_phase s1 = recovery_phase s"
    "ccw_bus s1 = ccw_bus s"
    using scan_frame[of fsm "ccw_bus s" False s] sc by simp_all
  have ph: "recovery_phase s = 0 \<or> recovery_phase s = 1 \<or> recovery_phase s = 2"
    using assms(3,4) by arith
  then show ?thesis
    using r1 fr assms(2) sc
    by (auto simp: recovery_work_func_def timer_pending_def recovery_delay_at_def
        recovery_delay_def mod_timer_def)
qed

lemma work_none:
  assumes "\<forall>c\<in>set (ccw_bus s). \<not> needs_retry s c"
  shows "recovery_work_func fsm j HZ s = Some s"
  using scan_none[OF assms, of fsm False] by (simp add: recovery_work_func_def)

lemma needs_retry_expires: "needs_retry (recovery_timer_expires s) c = needs_retry s c"
  by (simp add: needs_retry_def recovery_timer_expires_def)

lemma firings_phase:
  assumes "0 \<le> recovery_phase s" "recovery_phase s \<le> 2"
  shows "still_disconnected fsm jf HZ n s \<Longrightarrow>
     \<exists>sn. recovery_firings fsm jf HZ n s = Some sn \<and>
       recovery_phase sn = min (recovery_phase s + int n) 2 \<and>
       (0 < n \<longrightarrow> recovery_timer sn =
          Some (jf (n - 1) + of_nat (recovery_delay ! nat (recovery_phase sn)) * HZ))"
proof (induction n)
  case 0
  then show ?case using assms by simp
next
  case (Suc n)
  have st: "still_disconnected fsm jf HZ n s"
    using Suc.prems by (simp add: still_disconnected_def)
  from Suc.IH[OF st] obtain sn where sn: "recovery_firings fsm jf HZ n s = Some sn"
    and ph: "recovery_phase sn = min (recovery_phase s + int n) 2" by blast
  have nr: "\<exists>c\<in>set (ccw_bus sn). needs_retry sn c"
    using Suc.prems sn by (auto simp: still_disconnected_def dest!: spec[where x=n])
  let ?e = "recovery_timer_expires sn"
  have h1: "\<exists>c\<in>set (ccw_bus ?e). needs_retry ?e c"
    using nr by (simp add: needs_retry_expires) (simp add: recovery_timer_expires_def)
  have h2: "\<not> timer_pending ?e" by (simp add: timer_pending_def recovery_timer_expires_def)
  have h3: "0 \<le> recovery_phase ?e" "recovery_phase ?e \<le> 2"
    using ph assms by (simp_all add: recovery_timer_expires_def)
  from work_step[OF h1 h2 h3, of fsm "jf n" HZ] obtain s' where
    s': "recovery_work_func fsm (jf n) HZ ?e = Some s'"
    "recovery_phase s' = min (recovery_phase ?e + 1) 2"
    "recovery_timer s' = Some (jf n + of_nat (recovery_delay ! nat (recovery_phase s')) * HZ)"
    by blast
  have "recovery_phase s' = min (recovery_phase s + int (Suc n)) 2"
    using s'(2) ph by (simp add: recovery_timer_expires_def)
  then show ?case using sn s' by simp
qed

lemma delay_mono:
  assumes "0 \<le> p" "p \<le> 2"
  shows "recovery_delay ! nat p \<le> recovery_delay ! nat (min (p + 1) 2) \<and>
         recovery_delay ! nat (min (p + 1) 2) \<le> 300"
proof -
  from assms have "p = 0 \<or> p = 1 \<or> p = 2" by arith
  then show ?thesis by (auto simp: recovery_delay_def)
qed

lemma delay_cap: "0 \<le> p \<Longrightarrow> 2 \<le> n \<Longrightarrow> recovery_delay ! nat (min (p + int n) 2) = 300"
  by (simp add: recovery_delay_def min_def)

text \<open>The phase starts at 0 and both operations keep it inside the table.\<close>

lemma schedule_recovery_phase_range:
  "0 \<le> recovery_phase (ccw_device_schedule_recovery j HZ s) \<and>
   (recovery_phase s \<le> 2 \<longrightarrow> recovery_phase (ccw_device_schedule_recovery j HZ s) \<le> 2)"
  by (simp add: ccw_device_schedule_recovery_def mod_timer_def)

text \<open>
  C5. A firing that finds a device in DISCONNECTED or DISCONNECTED_SENSE_ID and no timer
  pending advances the phase by one, saturating at index 2 of the table {3, 30, 300}, and
  arms the timer at \<open>jiffies + recovery_delay[phase] * HZ\<close>; the delay does not decrease
  and is at most 300. A firing that finds no such device changes nothing, so the timer is
  not re-armed. After \<open>n\<close> firings in a row that each still find such a device the phase
  is \<open>min (phase + n) 2\<close>, and from the second firing on the delay is 300.
\<close>

theorem recovery_backoff:
  assumes "0 \<le> recovery_phase s" "recovery_phase s \<le> 2"
  shows
   "((\<exists>c\<in>set (ccw_bus s). needs_retry s c) \<and> \<not> timer_pending s \<longrightarrow>
       (\<exists>s'. recovery_work_func fsm j HZ s = Some s' \<and>
             recovery_phase s' = min (recovery_phase s + 1) 2 \<and>
             recovery_timer s' =
               Some (j + of_nat (recovery_delay ! nat (recovery_phase s')) * HZ) \<and>
             recovery_delay ! nat (recovery_phase s) \<le> recovery_delay ! nat (recovery_phase s') \<and>
             recovery_delay ! nat (recovery_phase s') \<le> 300)) \<and>
    ((\<forall>c\<in>set (ccw_bus s). \<not> needs_retry s c) \<longrightarrow>
       recovery_work_func fsm j HZ s = Some s) \<and>
    (still_disconnected fsm jf HZ n s \<longrightarrow>
       (\<exists>sn. recovery_firings fsm jf HZ n s = Some sn \<and>
             recovery_phase sn = min (recovery_phase s + int n) 2 \<and>
             (0 < n \<longrightarrow> recovery_timer sn =
                Some (jf (n - 1) + of_nat (recovery_delay ! nat (recovery_phase sn)) * HZ)) \<and>
             (2 \<le> n \<longrightarrow> recovery_delay ! nat (recovery_phase sn) = 300)))"
proof (intro conjI impI)
  assume a: "(\<exists>c\<in>set (ccw_bus s). needs_retry s c) \<and> \<not> timer_pending s"
  from work_step[of s fsm j HZ] a assms obtain s' where
    s': "recovery_work_func fsm j HZ s = Some s'"
      "recovery_phase s' = min (recovery_phase s + 1) 2"
      "recovery_timer s' = Some (j + of_nat (recovery_delay ! nat (recovery_phase s')) * HZ)"
    by blast
  show "\<exists>s'. recovery_work_func fsm j HZ s = Some s' \<and>
             recovery_phase s' = min (recovery_phase s + 1) 2 \<and>
             recovery_timer s' =
               Some (j + of_nat (recovery_delay ! nat (recovery_phase s')) * HZ) \<and>
             recovery_delay ! nat (recovery_phase s) \<le> recovery_delay ! nat (recovery_phase s') \<and>
             recovery_delay ! nat (recovery_phase s') \<le> 300"
    using s' delay_mono[OF assms] by auto
next
  assume "\<forall>c\<in>set (ccw_bus s). \<not> needs_retry s c"
  then show "recovery_work_func fsm j HZ s = Some s" by (rule work_none)
next
  assume st: "still_disconnected fsm jf HZ n s"
  from firings_phase[OF assms st] obtain sn where
    sn: "recovery_firings fsm jf HZ n s = Some sn"
      "recovery_phase sn = min (recovery_phase s + int n) 2"
      "0 < n \<longrightarrow> recovery_timer sn =
          Some (jf (n - 1) + of_nat (recovery_delay ! nat (recovery_phase sn)) * HZ)"
    by blast
  have "2 \<le> n \<longrightarrow> recovery_delay ! nat (recovery_phase sn) = 300"
    using sn(2) delay_cap[OF assms(1), of n] by simp
  then show "\<exists>sn. recovery_firings fsm jf HZ n s = Some sn \<and>
             recovery_phase sn = min (recovery_phase s + int n) 2 \<and>
             (0 < n \<longrightarrow> recovery_timer sn =
                Some (jf (n - 1) + of_nat (recovery_delay ! nat (recovery_phase sn)) * HZ)) \<and>
             (2 \<le> n \<longrightarrow> recovery_delay ! nat (recovery_phase sn) = 300)"
    using sn by blast
qed

theorem recovery_backoff_witness:
  "(\<exists>s'. recovery_work_func (\<lambda>ev st. st) 7 100 ex_state_sense = Some s' \<and>
         recovery_phase s' = 1 \<and> recovery_timer s' = Some 3007) \<and>
   recovery_work_func (\<lambda>ev st. st) 7 100 ex_state = Some ex_state \<and>
   (\<exists>sn. recovery_firings (\<lambda>ev st. st) (\<lambda>k. 0) 100 3 ex_state_sense = Some sn \<and>
         recovery_phase sn = 2 \<and> recovery_timer sn = Some 30000)"
proof -
  have p: "(0::int) \<le> recovery_phase ex_state_sense" "recovery_phase ex_state_sense \<le> 2"
    "(0::int) \<le> recovery_phase ex_state" "recovery_phase ex_state \<le> 2"
    by (simp_all add: ex_state_sense_def ex_state_def)
  have a: "(\<exists>c\<in>set (ccw_bus ex_state_sense). needs_retry ex_state_sense c) \<and>
           \<not> timer_pending ex_state_sense"
    by (simp add: needs_retry_def timer_pending_def ex_state_sense_def ex_state_def ex_dev_def)
  have b: "\<forall>c\<in>set (ccw_bus ex_state). \<not> needs_retry ex_state c"
    by (simp add: needs_retry_def ex_state_def ex_dev_def)
  have c: "still_disconnected (\<lambda>ev st. st) (\<lambda>k. 0) 100 3 ex_state_sense"
    by (simp add: still_disconnected_def numeral_3_eq_3 less_Suc_eq all_conj_distrib
      recovery_work_func_def recovery_timer_expires_def ex_state_sense_def ex_state_def ex_dev_def recovery_check_def
     timer_pending_def recovery_delay_def recovery_delay_at_def mod_timer_def needs_retry_def)
  have r: "recovery_phase ex_state_sense = 0" by (simp add: ex_state_sense_def ex_state_def)
  show ?thesis
    using recovery_backoff[OF p(1,2), of "\<lambda>ev st. st" 7 100 "\<lambda>k. 0" 3]
      recovery_backoff[OF p(3,4), of "\<lambda>ev st. st" 7 100 "\<lambda>k. 0" 0] a b c
    by (auto simp: r recovery_delay_def)
qed

text \<open>
  C6. \<open>ccw_device_schedule_recovery\<close> changes nothing while the timer is pending and the
  phase is 0; in every other state it resets the phase to 0 and arms the timer at
  \<open>jiffies + recovery_delay[0] * HZ\<close>. A second call right after a first is a no-op.
\<close>

theorem schedule_recovery_cases:
  "(timer_pending s \<and> recovery_phase s = 0 \<longrightarrow> ccw_device_schedule_recovery j HZ s = s) \<and>
   (\<not> timer_pending s \<or> recovery_phase s \<noteq> 0 \<longrightarrow>
      ccw_device_schedule_recovery j HZ s =
        s\<lparr>recovery_timer := Some (j + of_nat (recovery_delay ! 0) * HZ), recovery_phase := 0\<rparr>) \<and>
   ccw_device_schedule_recovery j' HZ (ccw_device_schedule_recovery j HZ s) =
     ccw_device_schedule_recovery j HZ s"
  by (simp add: ccw_device_schedule_recovery_def mod_timer_def timer_pending_def recovery_delay_def)

theorem schedule_recovery_cases_witness:
  "ccw_device_schedule_recovery 9 100 (ex_state\<lparr>recovery_timer := Some 250\<rparr>) =
     ex_state\<lparr>recovery_timer := Some 250\<rparr> \<and>
   ccw_device_schedule_recovery 9 100 (ex_state\<lparr>recovery_timer := Some 250, recovery_phase := 2\<rparr>) =
     ex_state\<lparr>recovery_timer := Some 309, recovery_phase := 0\<rparr> \<and>
   ccw_device_schedule_recovery 9 100 ex_state = ex_state\<lparr>recovery_timer := Some 309\<rparr>"
  using schedule_recovery_cases[of "ex_state\<lparr>recovery_timer := Some 250\<rparr>" 9 100 9]
    schedule_recovery_cases[of "ex_state\<lparr>recovery_timer := Some 250, recovery_phase := 2\<rparr>" 9 100 9]
    schedule_recovery_cases[of ex_state 9 100 9]
  by (simp add: timer_pending_def ex_state_def recovery_delay_def)

section \<open>Properties of the status classification\<close>

text \<open>
  C9. \<open>io_subchannel_get_status\<close> returns GONE exactly when the query fails or succeeds
  with the device-number-valid flag clear; otherwise REVALIDATE exactly when the stored
  device number is valid and differs from the fresh one; otherwise NO_PATH exactly when the
  logical path mask is empty; otherwise OPERATIONAL. A changed device number on a
  subchannel without a usable path is therefore REVALIDATE.
\<close>

theorem get_status_precedence:
  "(io_subchannel_get_status (cc, f) sch = CIO_GONE) = (cc \<noteq> 0 \<or> \<not> fresh_pmcw_dnv f) \<and>
   (io_subchannel_get_status (cc, f) sch = CIO_REVALIDATE) =
      (cc = 0 \<and> fresh_pmcw_dnv f \<and> sch_pmcw_dnv sch \<and> fresh_pmcw_dev f \<noteq> sch_pmcw_dev sch) \<and>
   (io_subchannel_get_status (cc, f) sch = CIO_NO_PATH) =
      (cc = 0 \<and> fresh_pmcw_dnv f \<and>
       \<not> (sch_pmcw_dnv sch \<and> fresh_pmcw_dev f \<noteq> sch_pmcw_dev sch) \<and> sch_lpm sch = 0) \<and>
   (io_subchannel_get_status (cc, f) sch = CIO_OPER) =
      (cc = 0 \<and> fresh_pmcw_dnv f \<and>
       \<not> (sch_pmcw_dnv sch \<and> fresh_pmcw_dev f \<noteq> sch_pmcw_dev sch) \<and> sch_lpm sch \<noteq> 0)"
  by (auto simp: io_subchannel_get_status_def)

theorem get_status_precedence_witness:
  "io_subchannel_get_status (0, \<lparr>fresh_pmcw_dnv = False, fresh_pmcw_dev = 0x1234\<rparr>) ex_sch = CIO_GONE \<and>
   io_subchannel_get_status (3, \<lparr>fresh_pmcw_dnv = True, fresh_pmcw_dev = 0x1234\<rparr>) ex_sch = CIO_GONE \<and>
   io_subchannel_get_status (0, \<lparr>fresh_pmcw_dnv = True, fresh_pmcw_dev = 0x4321\<rparr>)
      (ex_sch\<lparr>sch_lpm := 0\<rparr>) = CIO_REVALIDATE \<and>
   io_subchannel_get_status (0, \<lparr>fresh_pmcw_dnv = True, fresh_pmcw_dev = 0x1234\<rparr>)
      (ex_sch\<lparr>sch_lpm := 0\<rparr>) = CIO_NO_PATH \<and>
   io_subchannel_get_status (0, \<lparr>fresh_pmcw_dnv = True, fresh_pmcw_dev = 0x1234\<rparr>) ex_sch = CIO_OPER"
  using get_status_precedence[of 0 "\<lparr>fresh_pmcw_dnv = False, fresh_pmcw_dev = 0x1234\<rparr>" ex_sch]
    get_status_precedence[of 3 "\<lparr>fresh_pmcw_dnv = True, fresh_pmcw_dev = 0x1234\<rparr>" ex_sch]
    get_status_precedence[of 0 "\<lparr>fresh_pmcw_dnv = True, fresh_pmcw_dev = 0x4321\<rparr>" "ex_sch\<lparr>sch_lpm := 0\<rparr>"]
    get_status_precedence[of 0 "\<lparr>fresh_pmcw_dnv = True, fresh_pmcw_dev = 0x1234\<rparr>" "ex_sch\<lparr>sch_lpm := 0\<rparr>"]
    get_status_precedence[of 0 "\<lparr>fresh_pmcw_dnv = True, fresh_pmcw_dev = 0x1234\<rparr>" ex_sch]
  by (simp add: ex_sch_def)

section \<open>Properties of the event evaluator\<close>

lemma action_table_env:
  "fst (sch_event_action e sch event disc s) =
     spec_action event disc
       (case sch_get_cdev s sch of None \<Rightarrow> 0 | Some c \<Rightarrow> env_notify e c event)"
  by (cases event)
     (auto simp: sch_event_action_def sch_event_ask_driver_def spec_action_def
        io_subchannel_notify_def split: prod.splits option.splits)

text \<open>
  C1 (as amended). With a disconnected bound device a slow-path call returns 0 and leaves
  the state as it was; the device's pending timeout is not cancelled. With no disconnected
  bound device a fast-path call returns -EAGAIN, and its only effect is that the pending
  timeout of the bound device, if there is one, is cancelled.
\<close>

theorem sch_event_rejection:
  "(device_is_disconnected s (sch_get_cdev s sch) \<longrightarrow>
      io_subchannel_sch_event e s sch True = Some (0, s)) \<and>
   (\<not> device_is_disconnected s (sch_get_cdev s sch) \<longrightarrow>
      io_subchannel_sch_event e s sch False =
        Some (- EAGAIN,
              case sch_get_cdev s sch of
                None \<Rightarrow> s
              | Some c \<Rightarrow> upd_cdev c (\<lambda>d. d\<lparr>priv_timer := False\<rparr>) s))"
  by (simp add: io_subchannel_sch_event_def Let_def ccw_device_set_timeout_0_def
      split: option.splits)

theorem sch_event_rejection_witness:
  "io_subchannel_sch_event ex_env ex_state_disc 10 True = Some (0, ex_state_disc) \<and>
   io_subchannel_sch_event ex_env ex_state 10 False =
     Some (- 11, ex_state\<lparr>ccw_devices := [1 \<mapsto> ex_dev\<lparr>priv_timer := False\<rparr>]\<rparr>)"
  using sch_event_rejection[of ex_state_disc 10 ex_env] sch_event_rejection[of ex_state 10 ex_env]
  by (simp add: device_is_disconnected_def sch_get_cdev_def ex_state_disc_def ex_state_def
      ex_sch_def ex_dev_def upd_cdev_def EAGAIN_def)

text \<open>The slow-path rejection of a disconnected device returns with the device's timeout
  still pending.\<close>

theorem sch_event_rejection_counterexample:
  "device_is_disconnected ex_state_disc (sch_get_cdev ex_state_disc 10) \<and>
   sch_get_cdev ex_state_disc 10 = Some 1 \<and>
   map_option priv_timer (ccw_devices ex_state_disc 1) = Some True \<and>
   io_subchannel_sch_event ex_env ex_state_disc 10 True = Some (0, ex_state_disc)"
  by (simp add: io_subchannel_sch_event_def Let_def device_is_disconnected_def sch_get_cdev_def
      ex_state_disc_def ex_state_def ex_sch_def ex_dev_def)

text \<open>
  C3. The action chosen is the table's, read over the hardware status, the disconnected flag
  of the bound device and the answer of the driver's notify callback (taken as 0 when no
  device is bound): NO_PATH with a disconnected device gives REPROBE; NO_PATH otherwise and
  GONE give DISC when the callback answers non-zero and UNREGISTER when it answers zero;
  REVALIDATE gives REPROBE when disconnected and UNREGISTER_PROBE when not; OPER gives
  REPROBE when disconnected and no action otherwise. For an accepted call the evaluator
  returns what this one action does: nothing; a reprobe of the device; the device set
  disconnected; the device set not operational and the subchannel unregistered, and for
  UNREGISTER_PROBE the subchannel probed again, whose return code is then the result.
\<close>

theorem sch_event_action_table:
  "fst (sch_event_action e sch event disc s) =
     spec_action event disc
       (case sch_get_cdev s sch of None \<Rightarrow> 0 | Some c \<Rightarrow> env_notify e c event) \<and>
   (subchannels s sch = Some x \<and> cdev = sch_get_cdev s sch \<and>
    disc = device_is_disconnected s cdev \<and> disc \<noteq> slow \<and>
    event = io_subchannel_get_status (env_stsch e) x \<and>
    notify = (case cdev of None \<Rightarrow> 0 | Some c \<Rightarrow> env_notify e c event) \<and>
    s1 = (case cdev of None \<Rightarrow> s | Some c \<Rightarrow> upd_cdev c (\<lambda>d. d\<lparr>priv_timer := False\<rparr>) s) \<and>
    s2 = (case cdev of None \<Rightarrow> s1 | Some c \<Rightarrow> log_call (Call_notify c event) s1) \<longrightarrow>
    io_subchannel_sch_event e s sch slow =
      (case spec_action event disc notify of
         NONE \<Rightarrow> Some (0, s1)
       | REPROBE \<Rightarrow>
           (case cdev of None \<Rightarrow> None | Some c \<Rightarrow> Some (0, log_call (Call_trigger_reprobe c) s1))
       | DISC \<Rightarrow> Some (0, device_set_disconnected e cdev s2)
       | UNREGISTER \<Rightarrow>
           map_option
             (\<lambda>s3. (0, log_call (Call_cio_commit_config sch)
                        (upd_sch sch (\<lambda>x. x\<lparr>sch_registered := False, sch_intparm := 0\<rparr>) s3)))
             (ccw_device_set_notoper cdev s2)
       | UNREGISTER_PROBE \<Rightarrow>
           map_option
             (\<lambda>s3. (env_probe e, log_call (Call_css_probe_device (sch_schid x))
                        (log_call (Call_cio_commit_config sch)
                           (upd_sch sch (\<lambda>x. x\<lparr>sch_registered := False, sch_intparm := 0\<rparr>) s3))))
             (ccw_device_set_notoper cdev s1)))"
proof (intro conjI impI)
  show "fst (sch_event_action e sch event disc s) =
     spec_action event disc
       (case sch_get_cdev s sch of None \<Rightarrow> 0 | Some c \<Rightarrow> env_notify e c event)"
    by (rule action_table_env)
next
  assume a: "subchannels s sch = Some x \<and> cdev = sch_get_cdev s sch \<and>
    disc = device_is_disconnected s cdev \<and> disc \<noteq> slow \<and>
    event = io_subchannel_get_status (env_stsch e) x \<and>
    notify = (case cdev of None \<Rightarrow> 0 | Some c \<Rightarrow> env_notify e c event) \<and>
    s1 = (case cdev of None \<Rightarrow> s | Some c \<Rightarrow> upd_cdev c (\<lambda>d. d\<lparr>priv_timer := False\<rparr>) s) \<and>
    s2 = (case cdev of None \<Rightarrow> s1 | Some c \<Rightarrow> log_call (Call_notify c event) s1)"
  have x1: "subchannels s1 sch = Some x"
    using a by (auto simp: upd_cdev_def split: option.splits)
  have g1: "sch_get_cdev s1 sch = cdev"
    using a x1 by (simp add: sch_get_cdev_def)
  have unreg: "\<And>t. upd_sch sch (\<lambda>x. x\<lparr>sch_intparm := 0\<rparr>) (css_sch_device_unregister sch t) =
      upd_sch sch (\<lambda>x. x\<lparr>sch_registered := False, sch_intparm := 0\<rparr>) t"
    by (auto simp: css_sch_device_unregister_def upd_sch_def split: option.splits)
  show "io_subchannel_sch_event e s sch slow =
      (case spec_action event disc notify of
         NONE \<Rightarrow> Some (0, s1)
       | REPROBE \<Rightarrow>
           (case cdev of None \<Rightarrow> None | Some c \<Rightarrow> Some (0, log_call (Call_trigger_reprobe c) s1))
       | DISC \<Rightarrow> Some (0, device_set_disconnected e cdev s2)
       | UNREGISTER \<Rightarrow>
           map_option
             (\<lambda>s3. (0, log_call (Call_cio_commit_config sch)
                        (upd_sch sch (\<lambda>x. x\<lparr>sch_registered := False, sch_intparm := 0\<rparr>) s3)))
             (ccw_device_set_notoper cdev s2)
       | UNREGISTER_PROBE \<Rightarrow>
           map_option
             (\<lambda>s3. (env_probe e, log_call (Call_css_probe_device (sch_schid x))
                        (log_call (Call_cio_commit_config sch)
                           (upd_sch sch (\<lambda>x. x\<lparr>sch_registered := False, sch_intparm := 0\<rparr>) s3))))
             (ccw_device_set_notoper cdev s1))"
    using a x1 g1
    by (cases event; cases disc; cases cdev)
       (auto simp: io_subchannel_sch_event_def Let_def ccw_device_set_timeout_0_def
          sch_event_action_def sch_event_ask_driver_def io_subchannel_notify_def
          sch_event_perform_def spec_action_def unreg device_set_disconnected_def
          ccw_device_set_notoper_def
          split: option.splits)
qed

theorem sch_event_action_table_witness:
  "(fst (sch_event_action (ex_env_gone\<lparr>env_notify := (\<lambda>c ev. 1)\<rparr>) 10 CIO_GONE False ex_state) =
      DISC \<and>
    (\<exists>s'. io_subchannel_sch_event (ex_env_gone\<lparr>env_notify := (\<lambda>c ev. 1)\<rparr>) ex_state 10 True =
            Some (0, s') \<and>
       map_option priv_state (ccw_devices s' 1) = Some DEV_STATE_DISCONNECTED \<and>
       map_option sch_registered (subchannels s' 10) = Some True \<and>
       calls s' = [Call_notify 1 CIO_GONE])) \<and>
   (fst (sch_event_action ex_env_gone 10 CIO_GONE False ex_state) = UNREGISTER \<and>
    (\<exists>s'. io_subchannel_sch_event ex_env_gone ex_state 10 True = Some (0, s') \<and>
       map_option priv_state (ccw_devices s' 1) = Some DEV_STATE_NOT_OPER \<and>
       map_option sch_registered (subchannels s' 10) = Some False \<and>
       calls s' = [Call_notify 1 CIO_GONE, Call_cio_disable_subchannel 10,
                   Call_cio_commit_config 10])) \<and>
   (fst (sch_event_action (ex_env\<lparr>env_notify := (\<lambda>c ev. 1)\<rparr>) 10 CIO_NO_PATH False
           ex_state_nopath) = DISC \<and>
    (\<exists>s'. io_subchannel_sch_event (ex_env\<lparr>env_notify := (\<lambda>c ev. 1)\<rparr>) ex_state_nopath 10 True =
            Some (0, s') \<and>
       map_option priv_state (ccw_devices s' 1) = Some DEV_STATE_DISCONNECTED \<and>
       calls s' = [Call_notify 1 CIO_NO_PATH])) \<and>
   (fst (sch_event_action (ex_env\<lparr>env_notify := (\<lambda>c ev. 1)\<rparr>) 10 CIO_NO_PATH True
           (ex_state_nopath\<lparr>ccw_devices := ccw_devices ex_state_disc\<rparr>)) = REPROBE \<and>
    (\<exists>s'. io_subchannel_sch_event (ex_env\<lparr>env_notify := (\<lambda>c ev. 1)\<rparr>)
            (ex_state_nopath\<lparr>ccw_devices := ccw_devices ex_state_disc\<rparr>) 10 False = Some (0, s') \<and>
       calls s' = [Call_trigger_reprobe 1])) \<and>
   (fst (sch_event_action ex_env_reval 10 CIO_REVALIDATE False ex_state) = UNREGISTER_PROBE \<and>
    (\<exists>s'. io_subchannel_sch_event ex_env_reval ex_state 10 True = Some (0, s') \<and>
       map_option priv_state (ccw_devices s' 1) = Some DEV_STATE_NOT_OPER \<and>
       map_option sch_registered (subchannels s' 10) = Some False \<and>
       calls s' = [Call_cio_disable_subchannel 10, Call_cio_commit_config 10,
                   Call_css_probe_device \<lparr>sid_ssid = 0, sid_sch_no = 5\<rparr>])) \<and>
   (fst (sch_event_action ex_env 10 CIO_OPER True ex_state_disc) = REPROBE \<and>
    (\<exists>s'. io_subchannel_sch_event ex_env ex_state_disc 10 False = Some (0, s') \<and>
       map_option priv_state (ccw_devices s' 1) = Some DEV_STATE_DISCONNECTED \<and>
       calls s' = [Call_trigger_reprobe 1])) \<and>
   (fst (sch_event_action ex_env 10 CIO_OPER False ex_state) = NONE \<and>
    (\<exists>s'. io_subchannel_sch_event ex_env ex_state 10 True = Some (0, s') \<and>
       map_option priv_state (ccw_devices s' 1) = Some DEV_STATE_ONLINE \<and> calls s' = []))"
  using sch_event_action_table[where e = "ex_env_gone\<lparr>env_notify := (\<lambda>c ev. 1)\<rparr>" and sch = 10 and event = CIO_GONE
      and disc = False and s = "ex_state" and x = "ex_sch" and cdev = "Some 1" and slow = True and notify = 1
      and ?s1.0 = "upd_cdev 1 (\<lambda>d. d\<lparr>priv_timer := False\<rparr>) (ex_state)"
      and ?s2.0 = "log_call (Call_notify 1 CIO_GONE) (upd_cdev 1 (\<lambda>d. d\<lparr>priv_timer := False\<rparr>) (ex_state))"]
    sch_event_action_table[where e = "ex_env_gone" and sch = 10 and event = CIO_GONE
      and disc = False and s = "ex_state" and x = "ex_sch" and cdev = "Some 1" and slow = True and notify = 0
      and ?s1.0 = "upd_cdev 1 (\<lambda>d. d\<lparr>priv_timer := False\<rparr>) (ex_state)"
      and ?s2.0 = "log_call (Call_notify 1 CIO_GONE) (upd_cdev 1 (\<lambda>d. d\<lparr>priv_timer := False\<rparr>) (ex_state))"]
    sch_event_action_table[where e = "ex_env\<lparr>env_notify := (\<lambda>c ev. 1)\<rparr>" and sch = 10 and event = CIO_NO_PATH
      and disc = False and s = "ex_state_nopath" and x = "ex_sch\<lparr>sch_lpm := 0\<rparr>" and cdev = "Some 1" and slow = True and notify = 1
      and ?s1.0 = "upd_cdev 1 (\<lambda>d. d\<lparr>priv_timer := False\<rparr>) (ex_state_nopath)"
      and ?s2.0 = "log_call (Call_notify 1 CIO_NO_PATH) (upd_cdev 1 (\<lambda>d. d\<lparr>priv_timer := False\<rparr>) (ex_state_nopath))"]
    sch_event_action_table[where e = "ex_env\<lparr>env_notify := (\<lambda>c ev. 1)\<rparr>" and sch = 10 and event = CIO_NO_PATH
      and disc = True and s = "ex_state_nopath\<lparr>ccw_devices := ccw_devices ex_state_disc\<rparr>" and x = "ex_sch\<lparr>sch_lpm := 0\<rparr>" and cdev = "Some 1" and slow = False and notify = 1
      and ?s1.0 = "upd_cdev 1 (\<lambda>d. d\<lparr>priv_timer := False\<rparr>) (ex_state_nopath\<lparr>ccw_devices := ccw_devices ex_state_disc\<rparr>)"
      and ?s2.0 = "log_call (Call_notify 1 CIO_NO_PATH) (upd_cdev 1 (\<lambda>d. d\<lparr>priv_timer := False\<rparr>) (ex_state_nopath\<lparr>ccw_devices := ccw_devices ex_state_disc\<rparr>))"]
    sch_event_action_table[where e = "ex_env_reval" and sch = 10 and event = CIO_REVALIDATE
      and disc = False and s = "ex_state" and x = "ex_sch" and cdev = "Some 1" and slow = True and notify = 0
      and ?s1.0 = "upd_cdev 1 (\<lambda>d. d\<lparr>priv_timer := False\<rparr>) (ex_state)"
      and ?s2.0 = "log_call (Call_notify 1 CIO_REVALIDATE) (upd_cdev 1 (\<lambda>d. d\<lparr>priv_timer := False\<rparr>) (ex_state))"]
    sch_event_action_table[where e = "ex_env" and sch = 10 and event = CIO_OPER
      and disc = True and s = "ex_state_disc" and x = "ex_sch" and cdev = "Some 1" and slow = False and notify = 0
      and ?s1.0 = "upd_cdev 1 (\<lambda>d. d\<lparr>priv_timer := False\<rparr>) (ex_state_disc)"
      and ?s2.0 = "log_call (Call_notify 1 CIO_OPER) (upd_cdev 1 (\<lambda>d. d\<lparr>priv_timer := False\<rparr>) (ex_state_disc))"]
    sch_event_action_table[where e = "ex_env" and sch = 10 and event = CIO_OPER
      and disc = False and s = "ex_state" and x = "ex_sch" and cdev = "Some 1" and slow = True and notify = 0
      and ?s1.0 = "upd_cdev 1 (\<lambda>d. d\<lparr>priv_timer := False\<rparr>) (ex_state)"
      and ?s2.0 = "log_call (Call_notify 1 CIO_OPER) (upd_cdev 1 (\<lambda>d. d\<lparr>priv_timer := False\<rparr>) (ex_state))"]
  by (simp add: spec_action_def ex_env_reval_def ex_env_gone_def ex_env_def ex_state_def
      ex_state_disc_def ex_state_nopath_def ex_sch_def ex_dev_def
      sch_get_cdev_def device_is_disconnected_def io_subchannel_get_status_def
      device_set_disconnected_def ccw_device_schedule_recovery_def mod_timer_def
      timer_pending_def recovery_delay_def ccw_device_set_notoper_def
      ccw_device_set_timeout_0_def upd_cdev_def upd_sch_def log_call_def Let_def)


section \<open>Properties of the relocation protocol\<close>

text \<open>Projections of the store updates.\<close>

lemma upd_cdev_proj:
  "ccw_devices (upd_cdev c f s) k = (if k = c then map_option f (ccw_devices s c) else ccw_devices s k)"
  "subchannels (upd_cdev c f s) = subchannels s"
  "ccw_bus (upd_cdev c f s) = ccw_bus s"
  "pseudo_subchannel (upd_cdev c f s) = pseudo_subchannel s"
  "calls (upd_cdev c f s) = calls s"
  by (auto simp: upd_cdev_def split: option.splits)

lemma upd_sch_proj:
  "subchannels (upd_sch i g s) j = (if j = i then map_option g (subchannels s i) else subchannels s j)"
  "ccw_devices (upd_sch i g s) = ccw_devices s"
  "ccw_bus (upd_sch i g s) = ccw_bus s"
  "pseudo_subchannel (upd_sch i g s) = pseudo_subchannel s"
  "calls (upd_sch i g s) = calls s"
  by (auto simp: upd_sch_def split: option.splits)

lemma log_call_proj:
  "subchannels (log_call a s) = subchannels s"
  "ccw_devices (log_call a s) = ccw_devices s"
  "ccw_bus (log_call a s) = ccw_bus s"
  "pseudo_subchannel (log_call a s) = pseudo_subchannel s"
  "calls (log_call a s) = calls s @ [a]"
  by (simp_all add: log_call_def)

lemmas proj = upd_cdev_proj upd_sch_proj log_call_proj

lemmas refops = get_device_sch_def put_device_sch_def get_device_cdev_def put_device_cdev_def
  ccw_device_release_def device_move_def sch_set_cdev_def css_sch_device_unregister_def

lemmas ex_defs = ex_reloc_def ex_reloc_env_def ex_to_sch_def ex_dev_def ex_sch_def ex_pseudo_def

lemmas reloc_defs = ccw_device_move_to_orphanage_def sch_attach_disconnected_device_def
  sch_attach_orphaned_device_def sch_create_and_recog_new_device_def sch_attach_device_def
  io_subchannel_create_ccwdev_def io_subchannel_allocate_dev_def io_subchannel_initialize_dev_def
  io_subchannel_recog_def get_disc_ccwdev_by_dev_id_def get_orphaned_ccwdev_by_dev_id_def
  bus_find_device_def device_find_child_def match_devno_def match_orphan_def
  ccw_dev_id_is_equal_def ccw_device_is_orphan_def sch_is_pseudo_sch_def
  ccw_device_move_to_sch_def zero_ccw_device_def

text \<open>What the two searches return and what they leave behind.\<close>

lemma find_match: "find m xs = Some c \<Longrightarrow> c \<in> set xs \<and> m c"
  by (auto simp: find_Some_iff)

lemma get_disc_match:
  "fst (get_disc_ccwdev_by_dev_id di sib s) = Some c \<Longrightarrow>
     c \<in> set (ccw_bus s) \<and> match_devno s c \<lparr>md_dev_id = di, md_sibling = sib\<rparr>"
  using find_match[of "\<lambda>c. match_devno s c \<lparr>md_dev_id = di, md_sibling = sib\<rparr>" "ccw_bus s" c]
  by (auto simp: get_disc_ccwdev_by_dev_id_def bus_find_device_def split: option.splits)

lemma get_device_cdev_snd:
  "ccw_devices s r = Some d \<Longrightarrow>
     snd (get_device_cdev r s) = upd_cdev r (\<lambda>d. d\<lparr>cdev_refcount := cdev_refcount d + 1\<rparr>) s"
  by (simp add: get_device_cdev_def)

lemma get_disc_state:
  "fst (get_disc_ccwdev_by_dev_id di sib s) = Some r \<Longrightarrow>
     snd (get_disc_ccwdev_by_dev_id di sib s) =
       upd_cdev r (\<lambda>d. d\<lparr>cdev_refcount := cdev_refcount d + 1\<rparr>) s"
  "fst (get_disc_ccwdev_by_dev_id di sib s) = None \<Longrightarrow>
     snd (get_disc_ccwdev_by_dev_id di sib s) = s"
proof -
  assume a: "fst (get_disc_ccwdev_by_dev_id di sib s) = Some r"
  from get_disc_match[OF a] obtain d where d: "ccw_devices s r = Some d"
    by (auto simp: match_devno_def split: option.splits)
  show "snd (get_disc_ccwdev_by_dev_id di sib s) =
       upd_cdev r (\<lambda>d. d\<lparr>cdev_refcount := cdev_refcount d + 1\<rparr>) s"
    using a get_device_cdev_snd[OF d]
    by (simp add: get_disc_ccwdev_by_dev_id_def bus_find_device_def split: option.splits)
next
  assume "fst (get_disc_ccwdev_by_dev_id di sib s) = None"
  then show "snd (get_disc_ccwdev_by_dev_id di sib s) = s"
    by (simp add: get_disc_ccwdev_by_dev_id_def bus_find_device_def split: option.splits)
qed

lemma get_orphaned_match:
  "fst (get_orphaned_ccwdev_by_dev_id di s) = Some c \<Longrightarrow>
     c \<in> set (ccw_bus s) \<and> match_orphan s c di \<and>
     (\<exists>d. ccw_devices s c = Some d \<and> cdev_parent d = Some (pseudo_subchannel s))"
  using find_match[of "\<lambda>c. match_orphan s c di"
      "filter (\<lambda>c. case ccw_devices s c of None \<Rightarrow> False
                   | Some d \<Rightarrow> cdev_parent d = Some (pseudo_subchannel s)) (ccw_bus s)" c]
  by (auto simp: get_orphaned_ccwdev_by_dev_id_def device_find_child_def split: option.splits)

lemma get_orphaned_state:
  "fst (get_orphaned_ccwdev_by_dev_id di s) = Some r \<Longrightarrow>
     snd (get_orphaned_ccwdev_by_dev_id di s) =
       upd_cdev r (\<lambda>d. d\<lparr>cdev_refcount := cdev_refcount d + 1\<rparr>) s"
  "fst (get_orphaned_ccwdev_by_dev_id di s) = None \<Longrightarrow>
     snd (get_orphaned_ccwdev_by_dev_id di s) = s"
proof -
  assume a: "fst (get_orphaned_ccwdev_by_dev_id di s) = Some r"
  from get_orphaned_match[OF a] obtain d where d: "ccw_devices s r = Some d" by blast
  show "snd (get_orphaned_ccwdev_by_dev_id di s) =
       upd_cdev r (\<lambda>d. d\<lparr>cdev_refcount := cdev_refcount d + 1\<rparr>) s"
    using a get_device_cdev_snd[OF d]
    by (simp add: get_orphaned_ccwdev_by_dev_id_def device_find_child_def split: option.splits)
next
  assume "fst (get_orphaned_ccwdev_by_dev_id di s) = None"
  then show "snd (get_orphaned_ccwdev_by_dev_id di s) = s"
    by (simp add: get_orphaned_ccwdev_by_dev_id_def device_find_child_def split: option.splits)
qed

text \<open>A failed \<open>device_move\<close>.\<close>

lemma attach_disc_fail:
  assumes "move_ret \<noteq> 0" "subchannels s sch = Some x" "0 < sch_refcount x" "ccw_devices s c = Some d"
  shows "sch_attach_disconnected_device move_ret sch c s = Some s"
  using assms
  by (simp add: sch_attach_disconnected_device_def get_device_sch_def put_device_sch_def
      device_move_def upd_sch_def Let_def fun_upd_idem)

lemma attach_orph_fail:
  assumes "move_ret \<noteq> 0" "subchannels s sch = Some x" "0 < sch_refcount x" "ccw_devices s c = Some d"
  shows "sch_attach_orphaned_device move_ret sch c s = Some s"
  using assms
  by (simp add: sch_attach_orphaned_device_def get_device_sch_def put_device_sch_def
      device_move_def upd_sch_def Let_def fun_upd_idem)

lemma move_to_sch_fail:
  assumes "move_ret \<noteq> 0" "ccw_devices s c = Some d" "priv_sch d = Some sch"
    "cdev_parent d = Some former" "sch \<noteq> former" "subchannels s sch = Some x"
  shows "\<exists>s'. ccw_device_move_to_sch move_ret c s = Some s' \<and>
         map_option sch_refcount (subchannels s' sch) = Some (sch_refcount x) \<and>
         map_option sch_registered (subchannels s' sch) = Some False \<and>
         map_option sch_cdev (subchannels s' sch) = Some (sch_cdev x) \<and>
         map_option cdev_parent (ccw_devices s' c) = Some (Some former) \<and>
         map_option sch_cdev (subchannels s' former) = map_option sch_cdev (subchannels s former)"
  using assms
  by (cases "subchannels s former")
     (auto simp: ccw_device_move_to_sch_def get_device_sch_def put_device_sch_def
      put_device_cdev_def ccw_device_release_def css_sch_device_unregister_def
      device_move_def upd_sch_def upd_cdev_def Let_def)

text \<open>The relocation touches no device but the one it relocates.\<close>

lemma attach_disc_frame:
  "sch_attach_disconnected_device mr sch r s = Some s' \<Longrightarrow> k \<noteq> r \<Longrightarrow>
     ccw_devices s' k = ccw_devices s k"
  by (auto simp: sch_attach_disconnected_device_def sch_attach_device_def refops proj Let_def
      split: option.splits if_splits)

lemma attach_orph_frame:
  "sch_attach_orphaned_device mr sch r s = Some s' \<Longrightarrow> k \<noteq> r \<Longrightarrow>
     ccw_devices s' k = ccw_devices s k"
  by (auto simp: sch_attach_orphaned_device_def sch_attach_device_def refops proj Let_def
      split: option.splits if_splits)

lemma put_frame:
  "ccw_devices (put_device_sch sch s) = ccw_devices s"
  "k \<noteq> r \<Longrightarrow> ccw_devices (put_device_cdev r s) k = ccw_devices s k"
  by (auto simp: refops proj Let_def split: option.splits)

lemma put_keeps:
  "map_option cdev_parent (ccw_devices (put_device_sch sch s) r) = map_option cdev_parent (ccw_devices s r)"
  "map_option cdev_parent (ccw_devices (put_device_cdev k s) r) = map_option cdev_parent (ccw_devices s r)"
  "map_option sch_cdev (subchannels (put_device_sch sch s) j) = map_option sch_cdev (subchannels s j)"
  "map_option sch_cdev (subchannels (put_device_cdev k s) j) = map_option sch_cdev (subchannels s j)"
  by (auto simp: refops proj Let_def option.map_comp comp_def split: option.splits)

lemma attach_disc_ok:
  assumes "sch_attach_disconnected_device 0 sch r s = Some s'" "subchannels s sch = Some x"
  shows "map_option cdev_parent (ccw_devices s' r) = Some (Some sch) \<and>
         map_option sch_cdev (subchannels s' sch) = Some (Some r)"
  using assms
  by (auto simp: sch_attach_disconnected_device_def sch_attach_device_def refops proj Let_def
      split: option.splits if_splits)

lemma attach_orph_ok:
  assumes "sch_attach_orphaned_device 0 sch r s = Some s'" "subchannels s sch = Some x"
  shows "map_option cdev_parent (ccw_devices s' r) = Some (Some sch) \<and>
         map_option sch_cdev (subchannels s' sch) = Some (Some r)"
  using assms
  by (auto simp: sch_attach_orphaned_device_def sch_attach_device_def refops proj Let_def
      split: option.splits if_splits)

text \<open>Reference counts along an attach.\<close>

lemma attach_disc_count:
  assumes "sch_attach_disconnected_device mr sch r s = Some s'" "subchannels s sch = Some x"
    "ccw_devices s r = Some rd" "cdev_parent rd \<noteq> Some sch" "0 < sch_refcount x"
  shows "map_option sch_refcount (subchannels s' sch) =
           Some (sch_refcount x + (if mr = 0 then 1 else 0))"
  using assms
  by (auto simp: sch_attach_disconnected_device_def sch_attach_device_def refops proj Let_def
      split: option.splits if_splits)

lemma attach_orph_count:
  assumes "sch_attach_orphaned_device mr sch r s = Some s'" "subchannels s sch = Some x"
    "ccw_devices s r = Some rd" "cdev_parent rd \<noteq> Some sch" "0 < sch_refcount x"
  shows "map_option sch_refcount (subchannels s' sch) =
           Some (sch_refcount x + (if mr = 0 then 1 else 0))"
  using assms
  by (auto simp: sch_attach_orphaned_device_def sch_attach_device_def refops proj Let_def
      split: option.splits if_splits)

lemma attach_disc_rcount:
  assumes "sch_attach_disconnected_device mr sch r s = Some s'" "ccw_devices s r = Some rd"
  shows "map_option cdev_refcount (ccw_devices s' r) = Some (cdev_refcount rd)"
  using assms
  by (auto simp: sch_attach_disconnected_device_def sch_attach_device_def refops proj Let_def
      split: option.splits if_splits)

lemma attach_orph_rcount:
  assumes "sch_attach_orphaned_device mr sch r s = Some s'" "ccw_devices s r = Some rd"
  shows "map_option cdev_refcount (ccw_devices s' r) = Some (cdev_refcount rd)"
  using assms
  by (auto simp: sch_attach_orphaned_device_def sch_attach_device_def refops proj Let_def
      split: option.splits if_splits)

lemma put_cdev_live:
  assumes "map_option cdev_refcount (ccw_devices s r) = Some n" "n \<noteq> 1"
  shows "subchannels (put_device_cdev r s) = subchannels s"
  using assms by (auto simp: refops proj Let_def split: option.splits)

lemma put_sch_count:
  assumes "map_option sch_refcount (subchannels s sch) = Some n"
  shows "map_option sch_refcount (subchannels (put_device_sch sch s) sch) = Some (n - 1)"
  using assms by (auto simp: refops proj Let_def split: option.splits)

text \<open>Allocation and recognition of a new device.\<close>

lemma create_ok:
  assumes "re_alloc_cdev e = Some n" "re_alloc_private e" "re_recognition e = 0"
    "ccw_devices s n = None" "subchannels s sch = Some x"
  shows "\<exists>s'. sch_create_and_recog_new_device e sch s = Some s' \<and>
     (\<exists>nd. ccw_devices s' n = Some nd \<and> cdev_parent nd = Some sch \<and>
           priv_dev_id nd = target_dev_id x \<and> priv_state nd = DEV_STATE_NOT_OPER \<and>
           cdev_refcount nd = 1) \<and>
     map_option sch_cdev (subchannels s' sch) = Some (Some n) \<and>
     map_option sch_refcount (subchannels s' sch) = Some (sch_refcount x + 1) \<and>
     calls s' = calls s @ [Call_ccw_device_recognition n]"
  using assms
  by (simp add: sch_create_and_recog_new_device_def io_subchannel_create_ccwdev_def
      io_subchannel_allocate_dev_def io_subchannel_initialize_dev_def io_subchannel_recog_def
      target_dev_id_def refops proj Let_def upd_cdev_def upd_sch_def log_call_def)

lemma create_alloc_fail:
  assumes "re_alloc_cdev e = None \<or> \<not> re_alloc_private e"
  shows "sch_create_and_recog_new_device e sch s = Some (css_sch_device_unregister sch s)"
  using assms
  by (auto simp: sch_create_and_recog_new_device_def io_subchannel_create_ccwdev_def
      io_subchannel_allocate_dev_def split: option.splits)

lemma create_recog_fail:
  assumes "re_alloc_cdev e = Some n" "re_alloc_private e" "re_recognition e \<noteq> 0"
    "ccw_devices s n = None" "subchannels s sch = Some x"
  shows "\<exists>s'. sch_create_and_recog_new_device e sch s = Some s' \<and>
     map_option cdev_freed (ccw_devices s' n) = Some True \<and>
     map_option sch_cdev (subchannels s' sch) = Some None \<and>
     map_option sch_registered (subchannels s' sch) = Some False \<and>
     map_option sch_refcount (subchannels s' sch) = Some (sch_refcount x - 1)"
  using assms
  by (simp add: sch_create_and_recog_new_device_def io_subchannel_create_ccwdev_def
      io_subchannel_allocate_dev_def io_subchannel_initialize_dev_def io_subchannel_recog_def
      target_dev_id_def refops proj Let_def upd_cdev_def upd_sch_def log_call_def)

text \<open>The three branches of \<open>ccw_device_move_to_orphanage\<close>: which one runs, what it
  leaves alone, what it binds, and the reference count of the freed subchannel.\<close>

lemma reparented_sch:
  "subchannels s sch = Some x \<Longrightarrow> \<exists>x'. subchannels (orphanage_reparented c s) sch = Some x' \<and>
      sch_schid x' = sch_schid x \<and> sch_pmcw_dev x' = sch_pmcw_dev x"
  by (auto simp: orphanage_reparented_def refops proj split: option.splits)

lemma reparented_sch_count:
  "subchannels s sch = Some x \<Longrightarrow> sch \<noteq> pseudo_subchannel s \<Longrightarrow>
     subchannels (orphanage_reparented c s) sch = Some x"
  by (auto simp: orphanage_reparented_def refops proj split: option.splits)

lemma reparented_proj:
  "pseudo_subchannel (orphanage_reparented c s) = pseudo_subchannel s"
  "k \<noteq> c \<Longrightarrow> ccw_devices (orphanage_reparented c s) k = ccw_devices s k"
  "calls (orphanage_reparented c s) = calls s"
  by (auto simp: orphanage_reparented_def refops proj split: option.splits)

lemma orphanage_branches:
  assumes "ccw_devices s c = Some d" "cdev_parent d = Some sch" "subchannels s sch = Some x"
    "re_move_orphanage e = 0"
    "disc = get_disc_ccwdev_by_dev_id (target_dev_id x) (Some c) (orphanage_reparented c s)"
    "orph = get_orphaned_ccwdev_by_dev_id (target_dev_id x) (snd disc)"
  shows
   "(fst disc = Some r \<longrightarrow>
       ccw_device_move_to_orphanage e c s =
         map_option (\<lambda>s'. put_device_sch sch (put_device_cdev r s'))
           (sch_attach_disconnected_device (re_move_attach e) sch r (snd disc))) \<and>
    (fst disc = None \<and> fst orph = Some r \<longrightarrow>
       ccw_device_move_to_orphanage e c s =
         map_option (\<lambda>s'. put_device_sch sch (put_device_cdev r s'))
           (sch_attach_orphaned_device (re_move_attach e) sch r (snd orph))) \<and>
    (fst disc = None \<and> fst orph = None \<longrightarrow>
       ccw_device_move_to_orphanage e c s =
         map_option (put_device_sch sch) (sch_create_and_recog_new_device e sch (snd orph)))"
  using assms
  by (auto simp: ccw_device_move_to_orphanage_def orphanage_reparented_def target_dev_id_def
      Let_def split: prod.splits option.splits)

lemma disc_not_orphan:
  assumes "fst (get_disc_ccwdev_by_dev_id di sib s) = Some r" "ccw_devices s k = Some kd"
    "cdev_parent kd = Some (pseudo_subchannel s)"
  shows "k \<noteq> r"
  using get_disc_match[OF assms(1)] assms(2,3)
  by (auto simp: match_devno_def ccw_device_is_orphan_def sch_is_pseudo_sch_def)

lemma branch_disc_frame:
  assumes "ccw_devices s c = Some d" "cdev_parent d = Some sch" "subchannels s sch = Some x"
    "re_move_orphanage e = 0"
    "fst (get_disc_ccwdev_by_dev_id (target_dev_id x) (Some c) (orphanage_reparented c s)) = Some r"
    "ccw_device_move_to_orphanage e c s = Some s'" "k \<noteq> r"
  shows "ccw_devices s' k = ccw_devices (orphanage_reparented c s) k"
proof -
  let ?s3 = "orphanage_reparented c s"
  let ?disc = "get_disc_ccwdev_by_dev_id (target_dev_id x) (Some c) ?s3"
  have "map_option (\<lambda>s'. put_device_sch sch (put_device_cdev r s'))
          (sch_attach_disconnected_device (re_move_attach e) sch r (snd ?disc)) = Some s'"
    using orphanage_branches[OF assms(1-4) refl refl, of r] assms(5,6) by simp
  then obtain s5 where
    s5: "sch_attach_disconnected_device (re_move_attach e) sch r (snd ?disc) = Some s5"
    and s': "s' = put_device_sch sch (put_device_cdev r s5)"
    by auto
  have "ccw_devices s5 k = ccw_devices (snd ?disc) k"
    using attach_disc_frame[OF s5 assms(7)] .
  also have "\<dots> = ccw_devices ?s3 k"
    using get_disc_state(1)[OF assms(5)] assms(7) by (simp add: proj)
  finally show ?thesis using s' assms(7) by (simp add: put_frame)
qed

lemma branch_disc_none:
  assumes "ccw_devices s c = Some d" "cdev_parent d = Some sch" "subchannels s sch = Some x"
    "re_move_orphanage e = 0"
    "fst (get_disc_ccwdev_by_dev_id (target_dev_id x) (Some c) (orphanage_reparented c s)) = Some r"
    "ccw_device_move_to_orphanage e c s = Some s'"
    "ccw_devices (orphanage_reparented c s) k = None"
  shows "ccw_devices s' k = None"
proof -
  have "k \<noteq> r" using get_disc_match[OF assms(5)] assms(7)
    by (auto simp: match_devno_def)
  from branch_disc_frame[OF assms(1-6) this] assms(7) show ?thesis by simp
qed

lemma branch_disc_ok:
  assumes "ccw_devices s c = Some d" "cdev_parent d = Some sch" "subchannels s sch = Some x"
    "re_move_orphanage e = 0"
    "fst (get_disc_ccwdev_by_dev_id (target_dev_id x) (Some c) (orphanage_reparented c s)) = Some r"
    "ccw_device_move_to_orphanage e c s = Some s'" "re_move_attach e = 0"
  shows "map_option cdev_parent (ccw_devices s' r) = Some (Some sch) \<and>
         map_option sch_cdev (subchannels s' sch) = Some (Some r)"
proof -
  let ?s3 = "orphanage_reparented c s"
  let ?disc = "get_disc_ccwdev_by_dev_id (target_dev_id x) (Some c) ?s3"
  have "map_option (\<lambda>s'. put_device_sch sch (put_device_cdev r s'))
          (sch_attach_disconnected_device (re_move_attach e) sch r (snd ?disc)) = Some s'"
    using orphanage_branches[OF assms(1-4) refl refl, of r] assms(5,6) by simp
  then obtain s5 where
    s5: "sch_attach_disconnected_device 0 sch r (snd ?disc) = Some s5"
    and s': "s' = put_device_sch sch (put_device_cdev r s5)"
    using assms(7) by auto
  obtain x' where x': "subchannels ?s3 sch = Some x'" using reparented_sch[OF assms(3)] by blast
  have "subchannels (snd ?disc) sch = Some x'"
    using get_disc_state(1)[OF assms(5)] x' by (simp add: proj)
  from attach_disc_ok[OF s5 this] show ?thesis using s' by (simp add: put_keeps)
qed

lemma branch_orph:
  assumes "ccw_devices s c = Some d" "cdev_parent d = Some sch" "subchannels s sch = Some x"
    "re_move_orphanage e = 0"
    "fst (get_disc_ccwdev_by_dev_id (target_dev_id x) (Some c) (orphanage_reparented c s)) = None"
    "fst (get_orphaned_ccwdev_by_dev_id (target_dev_id x) (orphanage_reparented c s)) = Some r"
    "ccw_device_move_to_orphanage e c s = Some s'"
  shows "(ccw_devices (orphanage_reparented c s) k = None \<longrightarrow> ccw_devices s' k = None) \<and>
         (re_move_attach e = 0 \<longrightarrow>
            map_option cdev_parent (ccw_devices s' r) = Some (Some sch) \<and>
            map_option sch_cdev (subchannels s' sch) = Some (Some r))"
proof -
  let ?s3 = "orphanage_reparented c s"
  let ?disc = "get_disc_ccwdev_by_dev_id (target_dev_id x) (Some c) ?s3"
  let ?orph = "get_orphaned_ccwdev_by_dev_id (target_dev_id x) ?s3"
  have sd: "snd ?disc = ?s3" using get_disc_state(2)[OF assms(5)] .
  have so: "snd ?orph = upd_cdev r (\<lambda>d. d\<lparr>cdev_refcount := cdev_refcount d + 1\<rparr>) ?s3"
    using get_orphaned_state(1)[OF assms(6)] .
  have "map_option (\<lambda>s'. put_device_sch sch (put_device_cdev r s'))
          (sch_attach_orphaned_device (re_move_attach e) sch r (snd ?orph)) = Some s'"
    using orphanage_branches[OF assms(1-4) refl refl, of r] assms(5,6,7) sd by simp
  then obtain s6 where
    s6: "sch_attach_orphaned_device (re_move_attach e) sch r (snd ?orph) = Some s6"
    and s': "s' = put_device_sch sch (put_device_cdev r s6)"
    by auto
  obtain rd where rd: "ccw_devices ?s3 r = Some rd" using get_orphaned_match[OF assms(6)] by blast
  have a: "ccw_devices ?s3 k = None \<longrightarrow> ccw_devices s' k = None"
  proof
    assume n: "ccw_devices ?s3 k = None"
    then have kr: "k \<noteq> r" using rd by auto
    have "ccw_devices s6 k = ccw_devices (snd ?orph) k" using attach_orph_frame[OF s6 kr] .
    then show "ccw_devices s' k = None" using s' kr so n by (simp add: put_frame proj)
  qed
  obtain x' where x': "subchannels ?s3 sch = Some x'" using reparented_sch[OF assms(3)] by blast
  have xs: "subchannels (snd ?orph) sch = Some x'" using so x' by (simp add: proj)
  have b: "re_move_attach e = 0 \<longrightarrow>
            map_option cdev_parent (ccw_devices s' r) = Some (Some sch) \<and>
            map_option sch_cdev (subchannels s' sch) = Some (Some r)"
  proof
    assume "re_move_attach e = 0"
    then have "sch_attach_orphaned_device 0 sch r (snd ?orph) = Some s6" using s6 by simp
    from attach_orph_ok[OF this xs] show "map_option cdev_parent (ccw_devices s' r) = Some (Some sch) \<and>
            map_option sch_cdev (subchannels s' sch) = Some (Some r)"
      using s' by (simp add: put_keeps)
  qed
  show ?thesis using a b by blast
qed

lemma branch_create:
  assumes "ccw_devices s c = Some d" "cdev_parent d = Some sch" "subchannels s sch = Some x"
    "re_move_orphanage e = 0"
    "fst (get_disc_ccwdev_by_dev_id (target_dev_id x) (Some c) (orphanage_reparented c s)) = None"
    "fst (get_orphaned_ccwdev_by_dev_id (target_dev_id x) (orphanage_reparented c s)) = None"
  shows "ccw_device_move_to_orphanage e c s =
           map_option (put_device_sch sch)
             (sch_create_and_recog_new_device e sch (orphanage_reparented c s)) \<and>
         (re_alloc_cdev e = Some n \<and> re_alloc_private e \<and> re_recognition e = 0 \<and>
          ccw_devices s n = None \<longrightarrow>
            (\<exists>s' nd. ccw_device_move_to_orphanage e c s = Some s' \<and>
               ccw_devices s' n = Some nd \<and> cdev_parent nd = Some sch \<and>
               priv_dev_id nd = target_dev_id x \<and>
               map_option sch_cdev (subchannels s' sch) = Some (Some n) \<and>
               calls s' = calls s @ [Call_ccw_device_recognition n]))"
proof -
  let ?s3 = "orphanage_reparented c s"
  let ?disc = "get_disc_ccwdev_by_dev_id (target_dev_id x) (Some c) ?s3"
  let ?orph = "get_orphaned_ccwdev_by_dev_id (target_dev_id x) ?s3"
  have sd: "snd ?disc = ?s3" using get_disc_state(2)[OF assms(5)] .
  have so: "snd ?orph = ?s3" using get_orphaned_state(2)[OF assms(6)] .
  have eq: "ccw_device_move_to_orphanage e c s =
           map_option (put_device_sch sch) (sch_create_and_recog_new_device e sch ?s3)"
    using orphanage_branches[OF assms(1-4) refl refl, of r] assms(5,6) sd so by simp
  have "re_alloc_cdev e = Some n \<and> re_alloc_private e \<and> re_recognition e = 0 \<and>
          ccw_devices s n = None \<longrightarrow>
            (\<exists>s' nd. ccw_device_move_to_orphanage e c s = Some s' \<and>
               ccw_devices s' n = Some nd \<and> cdev_parent nd = Some sch \<and>
               priv_dev_id nd = target_dev_id x \<and>
               map_option sch_cdev (subchannels s' sch) = Some (Some n) \<and>
               calls s' = calls s @ [Call_ccw_device_recognition n])"
  proof
    assume h: "re_alloc_cdev e = Some n \<and> re_alloc_private e \<and> re_recognition e = 0 \<and>
          ccw_devices s n = None"
    then have nc: "n \<noteq> c" using assms(1) by auto
    have fresh: "ccw_devices ?s3 n = None" using h reparented_proj(2)[OF nc, of s] by simp
    obtain x' where x': "subchannels ?s3 sch = Some x'" "sch_schid x' = sch_schid x"
      "sch_pmcw_dev x' = sch_pmcw_dev x" using reparented_sch[OF assms(3)] by blast
    from create_ok[of e n ?s3 sch x'] h fresh x' obtain s6 nd where
      s6: "sch_create_and_recog_new_device e sch ?s3 = Some s6"
        "ccw_devices s6 n = Some nd" "cdev_parent nd = Some sch"
        "priv_dev_id nd = target_dev_id x'"
        "map_option sch_cdev (subchannels s6 sch) = Some (Some n)"
        "calls s6 = calls ?s3 @ [Call_ccw_device_recognition n]"
      by blast
    have t: "target_dev_id x' = target_dev_id x" using x' by (simp add: target_dev_id_def)
    show "\<exists>s' nd. ccw_device_move_to_orphanage e c s = Some s' \<and>
               ccw_devices s' n = Some nd \<and> cdev_parent nd = Some sch \<and>
               priv_dev_id nd = target_dev_id x \<and>
               map_option sch_cdev (subchannels s' sch) = Some (Some n) \<and>
               calls s' = calls s @ [Call_ccw_device_recognition n]"
      using eq s6 t
      by (simp add: put_frame put_keeps reparented_proj) (auto simp: put_device_sch_def proj)
  qed
  then show ?thesis using eq by blast
qed

lemma branch_disc_count:
  assumes "ccw_devices s c = Some d" "cdev_parent d = Some sch" "subchannels s sch = Some x"
    "re_move_orphanage e = 0"
    "fst (get_disc_ccwdev_by_dev_id (target_dev_id x) (Some c) (orphanage_reparented c s)) = Some r"
    "ccw_device_move_to_orphanage e c s = Some s'"
    "sch \<noteq> pseudo_subchannel s" "0 < sch_refcount x"
    "ccw_devices s r = Some rd" "0 < cdev_refcount rd" "cdev_parent rd \<noteq> Some sch"
  shows "map_option sch_refcount (subchannels s' sch) =
           Some (sch_refcount x - 1 + (if re_move_attach e = 0 then 1 else 0))"
proof -
  let ?s3 = "orphanage_reparented c s"
  let ?disc = "get_disc_ccwdev_by_dev_id (target_dev_id x) (Some c) ?s3"
  have rc: "r \<noteq> c" using get_disc_match[OF assms(5)] by (auto simp: match_devno_def split: option.splits)
  have r3: "ccw_devices ?s3 r = Some rd" using reparented_proj(2)[OF rc, of s] assms(9) by simp
  have x3: "subchannels ?s3 sch = Some x" using reparented_sch_count[OF assms(3,7)] .
  have sd: "snd ?disc = upd_cdev r (\<lambda>d. d\<lparr>cdev_refcount := cdev_refcount d + 1\<rparr>) ?s3"
    using get_disc_state(1)[OF assms(5)] .
  have r4: "ccw_devices (snd ?disc) r = Some (rd\<lparr>cdev_refcount := cdev_refcount rd + 1\<rparr>)"
    using sd r3 by (simp add: proj)
  have x4: "subchannels (snd ?disc) sch = Some x" using sd x3 by (simp add: proj)
  have "map_option (\<lambda>s'. put_device_sch sch (put_device_cdev r s'))
          (sch_attach_disconnected_device (re_move_attach e) sch r (snd ?disc)) = Some s'"
    using orphanage_branches[OF assms(1-4) refl refl, of r] assms(5,6) by simp
  then obtain s5 where
    s5: "sch_attach_disconnected_device (re_move_attach e) sch r (snd ?disc) = Some s5"
    and s': "s' = put_device_sch sch (put_device_cdev r s5)"
    by auto
  have c5: "map_option sch_refcount (subchannels s5 sch) =
           Some (sch_refcount x + (if re_move_attach e = 0 then 1 else 0))"
    using attach_disc_count[OF s5 x4 r4] assms(8,11) by simp
  have rc5: "map_option cdev_refcount (ccw_devices s5 r) = Some (cdev_refcount rd + 1)"
    using attach_disc_rcount[OF s5 r4] by simp
  have "subchannels (put_device_cdev r s5) = subchannels s5"
    using put_cdev_live[OF rc5] assms(10) by simp
  then have "map_option sch_refcount (subchannels (put_device_cdev r s5) sch) =
           Some (sch_refcount x + (if re_move_attach e = 0 then 1 else 0))"
    using c5 by simp
  from put_sch_count[OF this] show ?thesis using s' by auto
qed

lemma branch_orph_count:
  assumes "ccw_devices s c = Some d" "cdev_parent d = Some sch" "subchannels s sch = Some x"
    "re_move_orphanage e = 0"
    "fst (get_disc_ccwdev_by_dev_id (target_dev_id x) (Some c) (orphanage_reparented c s)) = None"
    "fst (get_orphaned_ccwdev_by_dev_id (target_dev_id x) (orphanage_reparented c s)) = Some r"
    "ccw_device_move_to_orphanage e c s = Some s'"
    "sch \<noteq> pseudo_subchannel s" "0 < sch_refcount x"
    "ccw_devices (orphanage_reparented c s) r = Some rd" "0 < cdev_refcount rd"
  shows "map_option sch_refcount (subchannels s' sch) =
           Some (sch_refcount x - 1 + (if re_move_attach e = 0 then 1 else 0))"
proof -
  let ?s3 = "orphanage_reparented c s"
  let ?disc = "get_disc_ccwdev_by_dev_id (target_dev_id x) (Some c) ?s3"
  let ?orph = "get_orphaned_ccwdev_by_dev_id (target_dev_id x) ?s3"
  have sd: "snd ?disc = ?s3" using get_disc_state(2)[OF assms(5)] .
  have so: "snd ?orph = upd_cdev r (\<lambda>d. d\<lparr>cdev_refcount := cdev_refcount d + 1\<rparr>) ?s3"
    using get_orphaned_state(1)[OF assms(6)] .
  have par: "cdev_parent rd = Some (pseudo_subchannel s)"
    using get_orphaned_match[OF assms(6)] assms(10) by (auto simp: reparented_proj)
  have x3: "subchannels ?s3 sch = Some x" using reparented_sch_count[OF assms(3,8)] .
  have r4: "ccw_devices (snd ?orph) r = Some (rd\<lparr>cdev_refcount := cdev_refcount rd + 1\<rparr>)"
    using so assms(10) by (simp add: proj)
  have x4: "subchannels (snd ?orph) sch = Some x" using so x3 by (simp add: proj)
  have "map_option (\<lambda>s'. put_device_sch sch (put_device_cdev r s'))
          (sch_attach_orphaned_device (re_move_attach e) sch r (snd ?orph)) = Some s'"
    using orphanage_branches[OF assms(1-4) refl refl, of r] assms(5,6,7) sd by simp
  then obtain s6 where
    s6: "sch_attach_orphaned_device (re_move_attach e) sch r (snd ?orph) = Some s6"
    and s': "s' = put_device_sch sch (put_device_cdev r s6)"
    by auto
  have c6: "map_option sch_refcount (subchannels s6 sch) =
           Some (sch_refcount x + (if re_move_attach e = 0 then 1 else 0))"
    using attach_orph_count[OF s6 x4 r4] assms(8,9) par by simp
  have rc6: "map_option cdev_refcount (ccw_devices s6 r) = Some (cdev_refcount rd + 1)"
    using attach_orph_rcount[OF s6 r4] by simp
  have "subchannels (put_device_cdev r s6) = subchannels s6"
    using put_cdev_live[OF rc6] assms(11) by simp
  then have "map_option sch_refcount (subchannels (put_device_cdev r s6) sch) =
           Some (sch_refcount x + (if re_move_attach e = 0 then 1 else 0))"
    using c6 by simp
  from put_sch_count[OF this] show ?thesis using s' by auto
qed

lemma branch_create_count:
  assumes "ccw_devices s c = Some d" "cdev_parent d = Some sch" "subchannels s sch = Some x"
    "re_move_orphanage e = 0"
    "fst (get_disc_ccwdev_by_dev_id (target_dev_id x) (Some c) (orphanage_reparented c s)) = None"
    "fst (get_orphaned_ccwdev_by_dev_id (target_dev_id x) (orphanage_reparented c s)) = None"
    "sch \<noteq> pseudo_subchannel s"
  shows "(re_alloc_cdev e = None \<or> \<not> re_alloc_private e \<longrightarrow>
            (\<exists>s'. ccw_device_move_to_orphanage e c s = Some s' \<and>
               map_option sch_refcount (subchannels s' sch) = Some (sch_refcount x - 1) \<and>
               map_option sch_registered (subchannels s' sch) = Some False \<and>
               ccw_devices s' = ccw_devices (orphanage_reparented c s))) \<and>
         (re_alloc_cdev e = Some n \<and> re_alloc_private e \<and> re_recognition e = 0 \<and>
          ccw_devices s n = None \<longrightarrow>
            (\<exists>s'. ccw_device_move_to_orphanage e c s = Some s' \<and>
               map_option sch_refcount (subchannels s' sch) = Some (sch_refcount x)))"
proof -
  let ?s3 = "orphanage_reparented c s"
  have eq: "ccw_device_move_to_orphanage e c s =
           map_option (put_device_sch sch) (sch_create_and_recog_new_device e sch ?s3)"
    using branch_create[OF assms(1-6)] by blast
  have x3: "subchannels ?s3 sch = Some x" using reparented_sch_count[OF assms(3,7)] .
  have a: "re_alloc_cdev e = None \<or> \<not> re_alloc_private e \<longrightarrow>
            (\<exists>s'. ccw_device_move_to_orphanage e c s = Some s' \<and>
               map_option sch_refcount (subchannels s' sch) = Some (sch_refcount x - 1) \<and>
               map_option sch_registered (subchannels s' sch) = Some False \<and>
               ccw_devices s' = ccw_devices ?s3)"
  proof
    assume "re_alloc_cdev e = None \<or> \<not> re_alloc_private e"
    from create_alloc_fail[OF this, of sch ?s3] show "\<exists>s'. ccw_device_move_to_orphanage e c s = Some s' \<and>
               map_option sch_refcount (subchannels s' sch) = Some (sch_refcount x - 1) \<and>
               map_option sch_registered (subchannels s' sch) = Some False \<and>
               ccw_devices s' = ccw_devices ?s3"
      using eq x3 by (simp add: refops proj)
  qed
  have b: "re_alloc_cdev e = Some n \<and> re_alloc_private e \<and> re_recognition e = 0 \<and>
          ccw_devices s n = None \<longrightarrow>
            (\<exists>s'. ccw_device_move_to_orphanage e c s = Some s' \<and>
               map_option sch_refcount (subchannels s' sch) = Some (sch_refcount x))"
  proof
    assume h: "re_alloc_cdev e = Some n \<and> re_alloc_private e \<and> re_recognition e = 0 \<and>
          ccw_devices s n = None"
    then have nc: "n \<noteq> c" using assms(1) by auto
    have fresh: "ccw_devices ?s3 n = None" using h reparented_proj(2)[OF nc, of s] by simp
    from create_ok[of e n ?s3 sch x] h fresh x3 obtain s6 where
      s6: "sch_create_and_recog_new_device e sch ?s3 = Some s6"
        "map_option sch_refcount (subchannels s6 sch) = Some (sch_refcount x + 1)"
      by blast
    from put_sch_count[OF s6(2)] show "\<exists>s'. ccw_device_move_to_orphanage e c s = Some s' \<and>
               map_option sch_refcount (subchannels s' sch) = Some (sch_refcount x)"
      using eq s6(1) by simp
  qed
  show ?thesis using a b by blast
qed

lemma branch_create_recog_fail:
  assumes "ccw_devices s c = Some d" "cdev_parent d = Some sch" "subchannels s sch = Some x"
    "re_move_orphanage e = 0"
    "fst (get_disc_ccwdev_by_dev_id (target_dev_id x) (Some c) (orphanage_reparented c s)) = None"
    "fst (get_orphaned_ccwdev_by_dev_id (target_dev_id x) (orphanage_reparented c s)) = None"
    "sch \<noteq> pseudo_subchannel s"
    "re_alloc_cdev e = Some n" "re_alloc_private e" "re_recognition e \<noteq> 0" "ccw_devices s n = None"
  shows "\<exists>s'. ccw_device_move_to_orphanage e c s = Some s' \<and>
               map_option sch_refcount (subchannels s' sch) = Some (sch_refcount x - 2) \<and>
               map_option cdev_freed (ccw_devices s' n) = Some True"
proof -
  let ?s3 = "orphanage_reparented c s"
  have eq: "ccw_device_move_to_orphanage e c s =
           map_option (put_device_sch sch) (sch_create_and_recog_new_device e sch ?s3)"
    using branch_create[OF assms(1-6)] by blast
  have x3: "subchannels ?s3 sch = Some x" using reparented_sch_count[OF assms(3,7)] .
  have nc: "n \<noteq> c" using assms(1,11) by auto
  have fresh: "ccw_devices ?s3 n = None" using assms(11) reparented_proj(2)[OF nc, of s] by simp
  from create_recog_fail[OF assms(8,9,10) fresh x3] obtain s6 where
    s6: "sch_create_and_recog_new_device e sch ?s3 = Some s6"
      "map_option cdev_freed (ccw_devices s6 n) = Some True"
      "map_option sch_refcount (subchannels s6 sch) = Some (sch_refcount x - 1)"
    by blast
  from put_sch_count[OF s6(3)] show ?thesis using eq s6(1,2) by (simp add: put_frame)
qed

text \<open>
  C10. \<open>get_disc_ccwdev_by_dev_id\<close> returns a device only if it is on the bus, in state
  DISCONNECTED, not in the orphanage, of exactly the identity asked for, and not the sibling.
  The first search of \<open>ccw_device_move_to_orphanage\<close> passes the device being moved as
  sibling, so what it selects is neither that device nor an orphan.
\<close>

theorem get_disc_candidate:
  "(fst (get_disc_ccwdev_by_dev_id dev_id sibling s) = Some r \<longrightarrow>
      r \<in> set (ccw_bus s) \<and> Some r \<noteq> sibling \<and>
      (\<exists>rd. ccw_devices s r = Some rd \<and> priv_state rd = DEV_STATE_DISCONNECTED \<and>
           \<not> ccw_device_is_orphan s rd \<and> cdev_parent rd \<noteq> Some (pseudo_subchannel s) \<and>
           ssid (priv_dev_id rd) = ssid dev_id \<and> devno (priv_dev_id rd) = devno dev_id)) \<and>
   (ccw_devices s c = Some d \<and> cdev_parent d = Some sch \<and> subchannels s sch = Some x \<and>
    re_move_orphanage e = 0 \<and>
    fst (get_disc_ccwdev_by_dev_id (target_dev_id x) (Some c) (orphanage_reparented c s)) = Some r
    \<longrightarrow>
      r \<noteq> c \<and>
      (\<exists>rd. ccw_devices s r = Some rd \<and> priv_state rd = DEV_STATE_DISCONNECTED \<and>
           cdev_parent rd \<noteq> Some (pseudo_subchannel s)) \<and>
      ccw_device_move_to_orphanage e c s =
        map_option (\<lambda>s'. put_device_sch sch (put_device_cdev r s'))
          (sch_attach_disconnected_device (re_move_attach e) sch r
             (snd (get_disc_ccwdev_by_dev_id (target_dev_id x) (Some c)
                     (orphanage_reparented c s)))))"
proof (intro conjI impI)
  assume a: "fst (get_disc_ccwdev_by_dev_id dev_id sibling s) = Some r"
  from get_disc_match[OF a] obtain rd where rd: "ccw_devices s r = Some rd"
      "priv_state rd = DEV_STATE_DISCONNECTED" "\<not> ccw_device_is_orphan s rd"
      "ccw_dev_id_is_equal (priv_dev_id rd) dev_id" "Some r \<noteq> sibling" "r \<in> set (ccw_bus s)"
    by (auto simp: match_devno_def split: option.splits)
  show "r \<in> set (ccw_bus s)" using rd by simp
  show "Some r \<noteq> sibling" using rd by simp
  have "cdev_parent rd \<noteq> Some (pseudo_subchannel s)"
    using rd(3) by (auto simp: ccw_device_is_orphan_def sch_is_pseudo_sch_def)
  then show "\<exists>rd. ccw_devices s r = Some rd \<and> priv_state rd = DEV_STATE_DISCONNECTED \<and>
           \<not> ccw_device_is_orphan s rd \<and> cdev_parent rd \<noteq> Some (pseudo_subchannel s) \<and>
           ssid (priv_dev_id rd) = ssid dev_id \<and> devno (priv_dev_id rd) = devno dev_id"
    using rd by (auto simp: ccw_dev_id_is_equal_def)
next
  assume h: "ccw_devices s c = Some d \<and> cdev_parent d = Some sch \<and> subchannels s sch = Some x \<and>
    re_move_orphanage e = 0 \<and>
    fst (get_disc_ccwdev_by_dev_id (target_dev_id x) (Some c) (orphanage_reparented c s)) = Some r"
  let ?s3 = "orphanage_reparented c s"
  from h have f: "fst (get_disc_ccwdev_by_dev_id (target_dev_id x) (Some c) ?s3) = Some r" by simp
  from get_disc_match[OF f] obtain rd where rd: "ccw_devices ?s3 r = Some rd"
      "priv_state rd = DEV_STATE_DISCONNECTED" "\<not> ccw_device_is_orphan ?s3 rd" "r \<noteq> c"
    by (auto simp: match_devno_def split: option.splits)
  show "r \<noteq> c" using rd by simp
  have p: "cdev_parent rd \<noteq> Some (pseudo_subchannel s)"
    using rd(3) by (auto simp: ccw_device_is_orphan_def sch_is_pseudo_sch_def reparented_proj)
  have "ccw_devices s r = Some rd" using rd(1) reparented_proj(2)[OF rd(4), of s] by simp
  then show "\<exists>rd. ccw_devices s r = Some rd \<and> priv_state rd = DEV_STATE_DISCONNECTED \<and>
           cdev_parent rd \<noteq> Some (pseudo_subchannel s)" using rd p by simp
  show "ccw_device_move_to_orphanage e c s =
        map_option (\<lambda>s'. put_device_sch sch (put_device_cdev r s'))
          (sch_attach_disconnected_device (re_move_attach e) sch r
             (snd (get_disc_ccwdev_by_dev_id (target_dev_id x) (Some c) ?s3)))"
    using orphanage_branches[of s c d sch x e _ _ r, OF _ _ _ _ refl refl] h by simp
qed

theorem get_disc_candidate_witness:
  "fst (get_disc_ccwdev_by_dev_id \<lparr>ssid = 0, devno = 0x5678\<rparr> (Some 1) ex_reloc) = Some 2 \<and>
   fst (get_disc_ccwdev_by_dev_id (target_dev_id (ex_sch\<lparr>sch_pmcw_dev := 0x5678\<rparr>)) (Some 1)
          (orphanage_reparented 1 ex_reloc)) = Some 2 \<and>
   map_option priv_state (ccw_devices ex_reloc 2) = Some DEV_STATE_DISCONNECTED \<and>
   map_option cdev_parent (ccw_devices ex_reloc 2) = Some (Some 11) \<and>
   pseudo_subchannel ex_reloc = 0 \<and>
   map_option (\<lambda>s'. map_option cdev_parent (ccw_devices s' 2))
     (ccw_device_move_to_orphanage ex_reloc_env 1 ex_reloc) = Some (Some (Some 10))"
  using get_disc_candidate[where dev_id = "\<lparr>ssid = 0, devno = 0x5678\<rparr>" and sibling = "Some 1"
      and s = ex_reloc and r = 2 and c = 1
      and d = "ex_dev\<lparr>priv_state := DEV_STATE_DISCONNECTED\<rparr>" and sch = 10
      and x = "ex_sch\<lparr>sch_pmcw_dev := 0x5678\<rparr>" and e = ex_reloc_env]
  by (simp add: reloc_defs refops ex_defs target_dev_id_def orphanage_reparented_def
      upd_sch_def upd_cdev_def log_call_def Let_def)

text \<open>
  C2 (as amended). When \<open>device_move\<close> fails, \<open>sch_attach_disconnected_device\<close> and
  \<open>sch_attach_orphaned_device\<close> release the new-parent reference and leave the whole state
  as it was: the subchannel is not unregistered. \<open>ccw_device_move_to_sch\<close> releases the
  new-parent reference, leaves the device with its former parent and the former parent's
  device pointer in place, and unregisters the subchannel the device was to move to.
\<close>

theorem relocation_failure:
  "(move_ret \<noteq> 0 \<and> subchannels s sch = Some x \<and> 0 < sch_refcount x \<and>
    ccw_devices s c = Some d \<longrightarrow>
      sch_attach_disconnected_device move_ret sch c s = Some s \<and>
      sch_attach_orphaned_device move_ret sch c s = Some s) \<and>
   (move_ret \<noteq> 0 \<and> ccw_devices s c = Some d \<and> priv_sch d = Some sch \<and>
    cdev_parent d = Some former \<and> sch \<noteq> former \<and> subchannels s sch = Some x \<longrightarrow>
      (\<exists>s'. ccw_device_move_to_sch move_ret c s = Some s' \<and>
         map_option sch_refcount (subchannels s' sch) = Some (sch_refcount x) \<and>
         map_option sch_registered (subchannels s' sch) = Some False \<and>
         map_option sch_cdev (subchannels s' sch) = Some (sch_cdev x) \<and>
         map_option cdev_parent (ccw_devices s' c) = Some (Some former) \<and>
         map_option sch_cdev (subchannels s' former) =
           map_option sch_cdev (subchannels s former)))"
  using attach_disc_fail[of move_ret s sch x c d] attach_orph_fail[of move_ret s sch x c d]
    move_to_sch_fail[of move_ret s c d sch former x]
  by blast

theorem relocation_failure_witness:
  "sch_attach_disconnected_device (- 5) 10 2 ex_reloc = Some ex_reloc \<and>
   sch_attach_orphaned_device (- 5) 10 2 ex_reloc = Some ex_reloc \<and>
   (\<exists>s'. ccw_device_move_to_sch (- 5) 2 ex_to_sch = Some s' \<and>
      map_option sch_refcount (subchannels s' 12) = Some 1 \<and>
      map_option sch_registered (subchannels s' 12) = Some False \<and>
      map_option sch_cdev (subchannels s' 12) = Some None \<and>
      map_option cdev_parent (ccw_devices s' 2) = Some (Some 11) \<and>
      map_option sch_cdev (subchannels s' 11) = Some (Some 2))"
  using relocation_failure[where move_ret = "- 5" and s = ex_reloc and sch = 10
      and x = "ex_sch\<lparr>sch_pmcw_dev := 0x5678\<rparr>" and c = 2
      and d = "ex_dev\<lparr>priv_state := DEV_STATE_DISCONNECTED, cdev_parent := Some 11,
                       cdev_ccwlock := Some 11, priv_dev_id := \<lparr>ssid = 0, devno = 0x5678\<rparr>,
                       priv_schid := \<lparr>sid_ssid = 0, sid_sch_no = 6\<rparr>\<rparr>" and former = 11]
    relocation_failure[where move_ret = "- 5" and s = ex_to_sch and sch = 12
      and x = "ex_sch\<lparr>sch_schid := \<lparr>sid_ssid = 0, sid_sch_no = 7\<rparr>, sch_pmcw_dev := 0x5678,
                      sch_cdev := None, sch_refcount := 1\<rparr>" and c = 2
      and d = "ex_dev\<lparr>priv_state := DEV_STATE_DISCONNECTED, cdev_parent := Some 11,
                     cdev_ccwlock := Some 11, priv_dev_id := \<lparr>ssid = 0, devno = 0x5678\<rparr>,
                     priv_schid := \<lparr>sid_ssid = 0, sid_sch_no = 6\<rparr>, priv_sch := Some 12,
                     cdev_refcount := 3\<rparr>" and former = 11]
  by (simp add: ex_defs)

text \<open>The relocation of device 2 onto subchannel 10 fails in \<open>device_move\<close>: subchannel 10
  is still registered afterwards, also when \<open>ccw_device_move_to_orphanage\<close> returns.\<close>

theorem relocation_failure_counterexample:
  "sch_attach_disconnected_device (- 5) 10 2 ex_reloc = Some ex_reloc \<and>
   map_option sch_registered (subchannels ex_reloc 10) = Some True \<and>
   map_option (\<lambda>s'. map_option sch_registered (subchannels s' 10))
     (ccw_device_move_to_orphanage (ex_reloc_env\<lparr>re_move_attach := - 5\<rparr>) 1 ex_reloc) =
     Some (Some True)"
proof -
  have a: "sch_attach_disconnected_device (- 5) 10 2 ex_reloc = Some ex_reloc"
    by (rule attach_disc_fail[where x = "ex_sch\<lparr>sch_pmcw_dev := 0x5678\<rparr>"
        and d = "ex_dev\<lparr>priv_state := DEV_STATE_DISCONNECTED, cdev_parent := Some 11,
                       cdev_ccwlock := Some 11, priv_dev_id := \<lparr>ssid = 0, devno = 0x5678\<rparr>,
                       priv_schid := \<lparr>sid_ssid = 0, sid_sch_no = 6\<rparr>\<rparr>"])
       (simp_all add: ex_defs)
  have b: "map_option (\<lambda>s'. map_option sch_registered (subchannels s' 10))
     (ccw_device_move_to_orphanage (ex_reloc_env\<lparr>re_move_attach := - 5\<rparr>) 1 ex_reloc) =
     Some (Some True)"
    by (simp add: reloc_defs refops ex_defs upd_sch_def upd_cdev_def log_call_def Let_def)
  show ?thesis using a b by (simp add: ex_defs)
qed

text \<open>
  C4. No candidate is on the bus, both allocations succeed. When recognition starts, the
  count of the freed subchannel 10 is 3 before and after (the old device's reference
  released, the new device's taken); when the allocation fails it falls by one. When
  \<open>ccw_device_recognition\<close> fails it falls by two: \<open>sch_create_and_recog_new_device\<close> drops
  the reference of the new device explicitly and again through \<open>ccw_device_release\<close>.
\<close>

theorem move_to_orphanage_recognition_failure:
  "map_option sch_refcount (subchannels ex_reloc_new 10) = Some 3 \<and>
   map_option (\<lambda>s'. map_option sch_refcount (subchannels s' 10))
     (ccw_device_move_to_orphanage ex_reloc_env 1 ex_reloc_new) = Some (Some 3) \<and>
   map_option (\<lambda>s'. map_option sch_refcount (subchannels s' 10))
     (ccw_device_move_to_orphanage (ex_reloc_env\<lparr>re_alloc_cdev := None\<rparr>) 1 ex_reloc_new) =
     Some (Some 2) \<and>
   map_option (\<lambda>s'. map_option sch_refcount (subchannels s' 10))
     (ccw_device_move_to_orphanage (ex_reloc_env\<lparr>re_recognition := - 16\<rparr>) 1 ex_reloc_new) =
     Some (Some 1) \<and>
   map_option (\<lambda>s'. map_option cdev_freed (ccw_devices s' 4))
     (ccw_device_move_to_orphanage (ex_reloc_env\<lparr>re_recognition := - 16\<rparr>) 1 ex_reloc_new) =
     Some (Some True)"
  by (simp add: reloc_defs refops ex_defs ex_reloc_new_def upd_sch_def upd_cdev_def log_call_def
      Let_def)

section \<open>Properties of the online and offline transitions\<close>

lemmas trans_defs = fsm_call_def wait_final_state_def set_online_undo_def

lemma online_of_simps:
  "online_of (put_device_cdev c s) k = online_of s k"
  "online_of (log_call a s) k = online_of s k"
  "online_of (upd_cdev c (\<lambda>d. d\<lparr>priv_state := st d\<rparr>) s) k = online_of s k"
  "online_of (upd_cdev c (\<lambda>d. d\<lparr>cdev_refcount := n d\<rparr>) s) k = online_of s k"
  "online_of (upd_cdev c (\<lambda>d. d\<lparr>cdev_online := b\<rparr>) s) c = map_option (\<lambda>_. b) (online_of s c)"
  "online_of (dev_fsm_event g c ev s) k = online_of s k"
  by (auto simp: online_of_def refops proj Let_def option.map_comp comp_def dev_fsm_event_def
      split: option.splits)

lemma refcount_of_simps:
  "refcount_of (put_device_cdev c s) c = map_option (\<lambda>n. n - 1) (refcount_of s c)"
  "refcount_of (log_call a s) k = refcount_of s k"
  "refcount_of (upd_cdev c (\<lambda>d. d\<lparr>priv_state := st d\<rparr>) s) k = refcount_of s k"
  "refcount_of (upd_cdev c (\<lambda>d. d\<lparr>cdev_online := b\<rparr>) s) k = refcount_of s k"
  "refcount_of (upd_cdev c (\<lambda>d. d\<lparr>cdev_refcount := cdev_refcount d + 1\<rparr>) s) c =
     map_option (\<lambda>n. n + 1) (refcount_of s c)"
  "refcount_of (dev_fsm_event g c ev s) k = refcount_of s k"
  by (auto simp: refcount_of_def refops proj Let_def option.map_comp comp_def dev_fsm_event_def
      split: option.splits)

lemma fsm_call_keeps:
  assumes "fsm_call a g c s = Some (r, s1)"
  shows "online_of s1 k = online_of s k" "refcount_of s1 k = refcount_of s k"
    "\<exists>d. ccw_devices s c = Some d \<and> r = fst (g (priv_state d))"
    "map_option priv_state (ccw_devices s1 c) = map_option (\<lambda>d. snd (g (priv_state d))) (ccw_devices s c)"
  using assms
  by (auto simp: fsm_call_def online_of_simps refcount_of_simps proj split: option.splits)

lemma wait_final_keeps:
  assumes "wait_final_state f c s = Some s1"
  shows "online_of s1 k = online_of s k" "refcount_of s1 k = refcount_of s k"
  using assms
  by (auto simp: wait_final_state_def online_of_simps refcount_of_simps split: option.splits)

lemma undo_keeps:
  assumes "set_online_undo f c s = Some (r, s1)"
  shows "online_of s1 c = online_of s c" "refcount_of s1 c = map_option (\<lambda>n. n - 1) (refcount_of s c)"
    "r \<noteq> 0"
  using assms
  by (auto simp: set_online_undo_def online_of_simps refcount_of_simps ENODEV_def
      fsm_call_keeps(1,2) wait_final_keeps split: option.splits if_splits prod.splits)

lemma set_online_fail_keeps:
  assumes "ccw_devices s c = Some d" "ccw_device_set_online f (Some c) s = Some (ret, s')" "ret \<noteq> 0"
  shows "online_of s' c = Some (cdev_online d) \<and> refcount_of s' c = Some (cdev_refcount d)"
proof -
  have o: "online_of s c = Some (cdev_online d)" "refcount_of s c = Some (cdev_refcount d)"
    using assms(1) by (simp_all add: online_of_def refcount_of_def)
  show ?thesis
    using assms o
    by (auto simp: ccw_device_set_online_def get_device_cdev_def online_of_simps
        refcount_of_simps fsm_call_keeps(1,2) wait_final_keeps undo_keeps(1,2) Let_def
        split: option.splits if_splits prod.splits)
qed

lemma set_online_signal:
  assumes "ccw_devices s c = Some d" "ccw_device_set_online f (Some c) s = Some (ret, s')" "ret \<noteq> 0"
  shows "(cdev_online d \<or> cdev_drv d = None \<longrightarrow> ret = - EINVAL \<and> s' = s) \<and>
         (\<not> cdev_online d \<and> cdev_drv d \<noteq> None \<and> fst (fsm_online f (priv_state d)) \<noteq> 0 \<longrightarrow>
            ret = fst (fsm_online f (priv_state d))) \<and>
         (\<forall>drv. \<not> cdev_online d \<and> cdev_drv d = Some drv \<and>
                fst (fsm_online f (priv_state d)) = 0 \<longrightarrow>
            (fsm_settle f (snd (fsm_online f (priv_state d))) \<noteq> Some DEV_STATE_ONLINE \<longrightarrow>
               ret = - ENODEV) \<and>
            (fsm_settle f (snd (fsm_online f (priv_state d))) = Some DEV_STATE_ONLINE \<longrightarrow>
               (\<exists>r. drv_set_online drv = Some r \<and> r \<noteq> 0) \<and>
               ret = (if fst (fsm_offline f DEV_STATE_ONLINE) = 0 then - ENODEV
                      else fst (fsm_offline f DEV_STATE_ONLINE))))"
  using assms
  by (auto simp: ccw_device_set_online_def get_device_cdev_def fsm_call_def wait_final_state_def
      set_online_undo_def proj Let_def
      split: option.splits if_splits prod.splits)

lemma set_offline_fail:
  assumes "ccw_devices s c = Some d" "ccw_device_set_offline f (Some c) s = Some (ret, s')" "ret \<noteq> 0"
  shows "(\<not> cdev_online d \<or> cdev_drv d = None \<longrightarrow> ret = - EINVAL \<and> s' = s) \<and>
         (\<forall>drv. cdev_online d \<and> cdev_drv d = Some drv \<longrightarrow>
            (\<forall>r. drv_set_offline drv = Some r \<and> r \<noteq> 0 \<longrightarrow>
               ret = r \<and> online_of s' c = Some True \<and> refcount_of s' c = Some (cdev_refcount d)) \<and>
            (drv_set_offline drv = None \<or> drv_set_offline drv = Some 0 \<longrightarrow>
               (fst (fsm_offline f (priv_state d)) = - ENODEV \<longrightarrow>
                  ret = - ENODEV \<and> online_of s' c = Some False \<and>
                  refcount_of s' c = Some (cdev_refcount d - 1)) \<and>
               (fst (fsm_offline f (priv_state d)) \<noteq> - ENODEV \<longrightarrow>
                  ret = fst (fsm_offline f (priv_state d)) \<and> online_of s' c = Some True \<and>
                  refcount_of s' c = Some (cdev_refcount d))))"
proof -
  have o: "online_of s c = Some (cdev_online d)" "refcount_of s c = Some (cdev_refcount d)"
    using assms(1) by (simp_all add: online_of_def refcount_of_def)
  show ?thesis
    using assms o
    by (auto simp: ccw_device_set_offline_def online_of_simps refcount_of_simps
        fsm_call_def wait_final_state_def proj Let_def ENODEV_def
        split: option.splits if_splits prod.splits)
qed

lemmas ex_trans_defs = ex_fsm_def ex_drv_def ex_state_drv_def ex_state_off_def ex_state_def
  ex_dev_def

lemmas eval_defs = ccw_device_set_online_def ccw_device_set_offline_def fsm_call_def
  wait_final_state_def set_online_undo_def get_device_cdev_def put_device_cdev_def
  ccw_device_release_def put_device_sch_def dev_fsm_event_def upd_cdev_def upd_sch_def
  log_call_def online_of_def refcount_of_def ENODEV_def EINVAL_def Let_def

text \<open>
  C7 (as amended). A failing \<open>ccw_device_set_online\<close> returns with the online flag and the
  reference count of the device as they were before the call. A failing
  \<open>ccw_device_set_offline\<close> does so too, except when \<open>ccw_device_offline\<close> itself returns
  -ENODEV: then the flag stays cleared and the reference held since \<open>ccw_device_set_online\<close>
  is given up. The return code is -ENODEV for a NULL device, -EINVAL for a wrong online
  state or a missing driver, the code of the transition request when that fails, and in
  \<open>ccw_device_set_offline\<close> the code of the driver's callback when that fails. In
  \<open>ccw_device_set_online\<close> a device that does not reach ONLINE gives -ENODEV, and so does a
  failing driver callback when the device can be taken offline again; otherwise the code of
  that offline request is returned, never the callback's.
\<close>

theorem transition_failure:
  "ccw_device_set_online f None s = Some (- ENODEV, s) \<and>
   ccw_device_set_offline f None s = Some (- ENODEV, s) \<and>
   (ccw_devices s c = Some d \<and> ccw_device_set_online f (Some c) s = Some (ret, s') \<and> ret \<noteq> 0
    \<longrightarrow>
      online_of s' c = Some (cdev_online d) \<and> refcount_of s' c = Some (cdev_refcount d) \<and>
      (cdev_online d \<or> cdev_drv d = None \<longrightarrow> ret = - EINVAL \<and> s' = s) \<and>
      (\<not> cdev_online d \<and> cdev_drv d \<noteq> None \<and> fst (fsm_online f (priv_state d)) \<noteq> 0 \<longrightarrow>
         ret = fst (fsm_online f (priv_state d))) \<and>
      (\<forall>drv. \<not> cdev_online d \<and> cdev_drv d = Some drv \<and>
             fst (fsm_online f (priv_state d)) = 0 \<longrightarrow>
         (fsm_settle f (snd (fsm_online f (priv_state d))) \<noteq> Some DEV_STATE_ONLINE \<longrightarrow>
            ret = - ENODEV) \<and>
         (fsm_settle f (snd (fsm_online f (priv_state d))) = Some DEV_STATE_ONLINE \<longrightarrow>
            (\<exists>r. drv_set_online drv = Some r \<and> r \<noteq> 0) \<and>
            ret = (if fst (fsm_offline f DEV_STATE_ONLINE) = 0 then - ENODEV
                   else fst (fsm_offline f DEV_STATE_ONLINE))))) \<and>
   (ccw_devices s c = Some d \<and> ccw_device_set_offline f (Some c) s = Some (ret, s') \<and> ret \<noteq> 0
    \<longrightarrow>
      (\<not> cdev_online d \<or> cdev_drv d = None \<longrightarrow> ret = - EINVAL \<and> s' = s) \<and>
      (\<forall>drv. cdev_online d \<and> cdev_drv d = Some drv \<longrightarrow>
         (\<forall>r. drv_set_offline drv = Some r \<and> r \<noteq> 0 \<longrightarrow>
            ret = r \<and> online_of s' c = Some True \<and> refcount_of s' c = Some (cdev_refcount d)) \<and>
         (drv_set_offline drv = None \<or> drv_set_offline drv = Some 0 \<longrightarrow>
            (fst (fsm_offline f (priv_state d)) = - ENODEV \<longrightarrow>
               ret = - ENODEV \<and> online_of s' c = Some False \<and>
               refcount_of s' c = Some (cdev_refcount d - 1)) \<and>
            (fst (fsm_offline f (priv_state d)) \<noteq> - ENODEV \<longrightarrow>
               ret = fst (fsm_offline f (priv_state d)) \<and> online_of s' c = Some True \<and>
               refcount_of s' c = Some (cdev_refcount d)))))"
proof -
  have A: "ccw_device_set_online f None s = Some (- ENODEV, s)"
    by (simp add: ccw_device_set_online_def)
  have B: "ccw_device_set_offline f None s = Some (- ENODEV, s)"
    by (simp add: ccw_device_set_offline_def)
  have C: "ccw_devices s c = Some d \<Longrightarrow> ccw_device_set_online f (Some c) s = Some (ret, s') \<Longrightarrow>
      ret \<noteq> 0 \<Longrightarrow>
      online_of s' c = Some (cdev_online d) \<and> refcount_of s' c = Some (cdev_refcount d) \<and>
      (cdev_online d \<or> cdev_drv d = None \<longrightarrow> ret = - EINVAL \<and> s' = s) \<and>
      (\<not> cdev_online d \<and> cdev_drv d \<noteq> None \<and> fst (fsm_online f (priv_state d)) \<noteq> 0 \<longrightarrow>
         ret = fst (fsm_online f (priv_state d))) \<and>
      (\<forall>drv. \<not> cdev_online d \<and> cdev_drv d = Some drv \<and>
             fst (fsm_online f (priv_state d)) = 0 \<longrightarrow>
         (fsm_settle f (snd (fsm_online f (priv_state d))) \<noteq> Some DEV_STATE_ONLINE \<longrightarrow>
            ret = - ENODEV) \<and>
         (fsm_settle f (snd (fsm_online f (priv_state d))) = Some DEV_STATE_ONLINE \<longrightarrow>
            (\<exists>r. drv_set_online drv = Some r \<and> r \<noteq> 0) \<and>
            ret = (if fst (fsm_offline f DEV_STATE_ONLINE) = 0 then - ENODEV
                   else fst (fsm_offline f DEV_STATE_ONLINE))))"
  proof -
    assume a1: "ccw_devices s c = Some d"
      and a2: "ccw_device_set_online f (Some c) s = Some (ret, s')" and a3: "ret \<noteq> 0"
    from set_online_fail_keeps[OF a1 a2 a3] set_online_signal[OF a1 a2 a3]
    show ?thesis by (elim conjE, intro conjI) assumption+
  qed
  have D: "ccw_devices s c = Some d \<Longrightarrow> ccw_device_set_offline f (Some c) s = Some (ret, s') \<Longrightarrow>
      ret \<noteq> 0 \<Longrightarrow>
      (\<not> cdev_online d \<or> cdev_drv d = None \<longrightarrow> ret = - EINVAL \<and> s' = s) \<and>
      (\<forall>drv. cdev_online d \<and> cdev_drv d = Some drv \<longrightarrow>
         (\<forall>r. drv_set_offline drv = Some r \<and> r \<noteq> 0 \<longrightarrow>
            ret = r \<and> online_of s' c = Some True \<and> refcount_of s' c = Some (cdev_refcount d)) \<and>
         (drv_set_offline drv = None \<or> drv_set_offline drv = Some 0 \<longrightarrow>
            (fst (fsm_offline f (priv_state d)) = - ENODEV \<longrightarrow>
               ret = - ENODEV \<and> online_of s' c = Some False \<and>
               refcount_of s' c = Some (cdev_refcount d - 1)) \<and>
            (fst (fsm_offline f (priv_state d)) \<noteq> - ENODEV \<longrightarrow>
               ret = fst (fsm_offline f (priv_state d)) \<and> online_of s' c = Some True \<and>
               refcount_of s' c = Some (cdev_refcount d))))"
    by (rule set_offline_fail)
  show ?thesis using A B C D by blast
qed

theorem transition_failure_witness:
  "(\<exists>s'. ccw_device_set_online ex_fsm (Some 1) ex_state_off = Some (- 19, s') \<and>
      online_of s' 1 = Some False \<and> refcount_of s' 1 = Some 1) \<and>
   (\<exists>s'. ccw_device_set_offline (ex_fsm\<lparr>fsm_offline := (\<lambda>st. (- 16, st))\<rparr>) (Some 1)
            ex_state_drv = Some (- 16, s') \<and>
      online_of s' 1 = Some True \<and> refcount_of s' 1 = Some 2) \<and>
   (\<exists>s'. ccw_device_set_offline (ex_fsm\<lparr>fsm_offline := (\<lambda>st. (- 19, DEV_STATE_NOT_OPER))\<rparr>)
            (Some 1) ex_state_drv = Some (- 19, s') \<and>
      online_of s' 1 = Some False \<and> refcount_of s' 1 = Some 1) \<and>
   (\<exists>s'. ccw_device_set_online (ex_fsm\<lparr>fsm_offline := (\<lambda>st. (- 16, st))\<rparr>) (Some 1)
            ex_state_off = Some (- 16, s') \<and>
      online_of s' 1 = Some False \<and> refcount_of s' 1 = Some 1)"
proof -
  obtain s4 where s4: "ccw_device_set_online (ex_fsm\<lparr>fsm_offline := (\<lambda>st. (- 16, st))\<rparr>)
      (Some 1) ex_state_off = Some (- 16, s4)"
    by (simp add: eval_defs ex_trans_defs)
  obtain s1 where s1: "ccw_device_set_online ex_fsm (Some 1) ex_state_off = Some (- 19, s1)"
    by (simp add: eval_defs ex_trans_defs)
  obtain s2 where s2: "ccw_device_set_offline (ex_fsm\<lparr>fsm_offline := (\<lambda>st. (- 16, st))\<rparr>)
      (Some 1) ex_state_drv = Some (- 16, s2)"
    by (simp add: eval_defs ex_trans_defs)
  obtain s3 where s3: "ccw_device_set_offline
      (ex_fsm\<lparr>fsm_offline := (\<lambda>st. (- 19, DEV_STATE_NOT_OPER))\<rparr>) (Some 1) ex_state_drv =
      Some (- 19, s3)"
    by (simp add: eval_defs ex_trans_defs)
  have d1: "ccw_devices ex_state_off 1 = Some (ex_dev\<lparr>cdev_drv := Some ex_drv,
      cdev_online := False, priv_state := DEV_STATE_OFFLINE, cdev_refcount := 1\<rparr>)"
    by (simp add: ex_state_off_def)
  have d2: "ccw_devices ex_state_drv 1 = Some (ex_dev\<lparr>cdev_drv := Some ex_drv\<rparr>)"
    by (simp add: ex_state_drv_def)
  show ?thesis
    using transition_failure[of ex_fsm ex_state_off 1 _ "- 19" s1] s1 d1
      transition_failure[of "ex_fsm\<lparr>fsm_offline := (\<lambda>st. (- 16, st))\<rparr>" ex_state_drv 1 _
        "- 16" s2] s2 d2
      transition_failure[of "ex_fsm\<lparr>fsm_offline := (\<lambda>st. (- 19, DEV_STATE_NOT_OPER))\<rparr>"
        ex_state_drv 1 _ "- 19" s3] s3
      transition_failure[of "ex_fsm\<lparr>fsm_offline := (\<lambda>st. (- 16, st))\<rparr>" ex_state_off 1 _ "- 16" s4] s4
    by (simp add: ex_fsm_def ex_drv_def ex_dev_def ENODEV_def)
qed



text \<open>Taking an online device offline when \<open>ccw_device_offline\<close> answers -ENODEV returns
  with the flag cleared; setting a device online whose driver callback fails with -5 returns
  -ENODEV, the code of a vanished device.\<close>

theorem transition_failure_counterexample:
  "online_of ex_state_drv 1 = Some True \<and>
   map_option fst
     (ccw_device_set_offline (ex_fsm\<lparr>fsm_offline := (\<lambda>st. (- 19, DEV_STATE_NOT_OPER))\<rparr>)
        (Some 1) ex_state_drv) = Some (- 19) \<and>
   map_option (\<lambda>r. online_of (snd r) 1)
     (ccw_device_set_offline (ex_fsm\<lparr>fsm_offline := (\<lambda>st. (- 19, DEV_STATE_NOT_OPER))\<rparr>)
        (Some 1) ex_state_drv) = Some (Some False) \<and>
   map_option (\<lambda>d. map_option drv_set_online (cdev_drv d)) (ccw_devices ex_state_off 1) =
     Some (Some (Some (- 5))) \<and>
   map_option fst (ccw_device_set_online ex_fsm (Some 1) ex_state_off) = Some (- 19)"
  by (simp add: eval_defs ex_trans_defs)

section \<open>Properties of the online attribute\<close>

text \<open>The in-flight marker commutes with every step of the two transitions.\<close>

lemma onoff_comm:
  "d\<lparr>priv_onoff := v, cdev_online := b\<rparr> = d\<lparr>cdev_online := b, priv_onoff := v\<rparr>"
  "d\<lparr>priv_onoff := v, priv_state := st\<rparr> = d\<lparr>priv_state := st, priv_onoff := v\<rparr>"
  "d\<lparr>priv_onoff := v, cdev_freed := fr\<rparr> = d\<lparr>cdev_freed := fr, priv_onoff := v\<rparr>"
  "d\<lparr>priv_onoff := v, cdev_refcount := n\<rparr> = d\<lparr>cdev_refcount := n, priv_onoff := v\<rparr>"
  by (cases d; simp)+

lemma mark_devices:
  "ccw_devices (mark_onoff c v s) k =
     (if k = c then map_option (\<lambda>d. d\<lparr>priv_onoff := v\<rparr>) (ccw_devices s c) else ccw_devices s k)"
  by (simp add: mark_onoff_def upd_cdev_def split: option.splits)

lemma mark_log: "log_call a (mark_onoff c v s) = mark_onoff c v (log_call a s)"
  by (simp add: mark_onoff_def upd_cdev_def log_call_def split: option.splits)

lemma mark_upd:
  "upd_cdev c (\<lambda>d. d\<lparr>cdev_online := b\<rparr>) (mark_onoff c v s) =
     mark_onoff c v (upd_cdev c (\<lambda>d. d\<lparr>cdev_online := b\<rparr>) s)"
  "(\<And>d. F (d\<lparr>priv_onoff := v\<rparr>) = F d) \<Longrightarrow>
   upd_cdev c (\<lambda>d. d\<lparr>priv_state := F d\<rparr>) (mark_onoff c v s) =
     mark_onoff c v (upd_cdev c (\<lambda>d. d\<lparr>priv_state := F d\<rparr>) s)"
  by (simp_all add: mark_onoff_def upd_cdev_def onoff_comm split: option.splits)

lemma mark_get:
  "get_device_cdev c (mark_onoff c v s) =
     (fst (get_device_cdev c s), mark_onoff c v (snd (get_device_cdev c s)))"
  by (simp add: get_device_cdev_def mark_onoff_def upd_cdev_def onoff_comm split: option.splits)

lemma mark_put_sch: "put_device_sch p (mark_onoff c v s) = mark_onoff c v (put_device_sch p s)"
  by (simp add: put_device_sch_def mark_onoff_def upd_cdev_def upd_sch_def Let_def
      split: option.splits)

lemma mark_release:
  "ccw_device_release c (mark_onoff c v s) = mark_onoff c v (ccw_device_release c s)"
  by (auto simp: ccw_device_release_def mark_put_sch mark_devices Let_def
      split: option.splits)
     (simp_all add: mark_onoff_def upd_cdev_def put_device_sch_def upd_sch_def Let_def
      onoff_comm split: option.splits)

lemma mark_put: "put_device_cdev c (mark_onoff c v s) = mark_onoff c v (put_device_cdev c s)"
  by (simp add: put_device_cdev_def Let_def mark_devices split: option.splits)
     (auto simp: mark_onoff_def upd_cdev_def ccw_device_release_def put_device_sch_def upd_sch_def
      Let_def onoff_comm split: option.splits)

lemma mark_fsm_call:
  "fsm_call a g c (mark_onoff c v s) =
     map_option (\<lambda>r. (fst r, mark_onoff c v (snd r))) (fsm_call a g c s)"
  by (simp add: fsm_call_def mark_devices mark_log mark_upd split: option.splits)

lemma mark_wait:
  "wait_final_state f c (mark_onoff c v s) = map_option (mark_onoff c v) (wait_final_state f c s)"
  by (simp add: wait_final_state_def mark_devices mark_upd split: option.splits)

lemma mark_event:
  "dev_fsm_event g c ev (mark_onoff c v s) = mark_onoff c v (dev_fsm_event g c ev s)"
  by (simp add: dev_fsm_event_def mark_log mark_upd)

lemma mark_undo:
  "set_online_undo f c (mark_onoff c v s) =
     map_option (\<lambda>r. (fst r, mark_onoff c v (snd r))) (set_online_undo f c s)"
  by (simp add: set_online_undo_def mark_fsm_call mark_wait mark_put
      split: option.splits prod.splits)

lemma mark_set_online:
  "ccw_device_set_online f (Some c) (mark_onoff c v s) =
     map_option (\<lambda>r. (fst r, mark_onoff c v (snd r))) (ccw_device_set_online f (Some c) s)"
  by (simp add: ccw_device_set_online_def mark_devices mark_get mark_fsm_call mark_wait
      mark_put mark_undo mark_log mark_upd Let_def
      split: option.splits prod.splits)

lemma mark_set_offline:
  "ccw_device_set_offline f (Some c) (mark_onoff c v s) =
     map_option (\<lambda>r. (fst r, mark_onoff c v (snd r))) (ccw_device_set_offline f (Some c) s)"
  by (simp add: ccw_device_set_offline_def mark_devices mark_fsm_call mark_wait
      mark_put mark_log mark_upd mark_event Let_def
      split: option.splits prod.splits)

text \<open>
  C8 (as amended). While a request is in flight on a device (\<open>onoff\<close> is not 0, as
  \<open>online_store\<close> sets it before doing anything else), another write to the online attribute
  of that device returns -EAGAIN and leaves the whole state untouched. The marker is read by
  \<open>online_store\<close> only: \<open>ccw_device_set_online\<close> and \<open>ccw_device_set_offline\<close> called directly
  return the same code and make the same changes whatever the marker holds.
\<close>

theorem online_store_in_flight:
  "(ccw_devices s c = Some d \<and> priv_onoff d \<noteq> 0 \<longrightarrow>
      online_store f e c buf count s = Some (- EAGAIN, s)) \<and>
   (ccw_devices s c = Some d \<longrightarrow>
      online_store f e c buf count (mark_onoff c 1 s) = Some (- EAGAIN, mark_onoff c 1 s)) \<and>
   ccw_device_set_online f (Some c) (mark_onoff c v s) =
     map_option (\<lambda>r. (fst r, mark_onoff c v (snd r))) (ccw_device_set_online f (Some c) s) \<and>
   ccw_device_set_offline f (Some c) (mark_onoff c v s) =
     map_option (\<lambda>r. (fst r, mark_onoff c v (snd r))) (ccw_device_set_offline f (Some c) s)"
  by (simp add: online_store_def mark_devices mark_set_online mark_set_offline)

theorem online_store_in_flight_witness:
  "map_option priv_onoff (ccw_devices ex_state_off 1) = Some 0 \<and>
   map_option priv_onoff (ccw_devices (mark_onoff 1 1 ex_state_off) 1) = Some 1 \<and>
   online_store ex_fsm \<lparr>se_try_module_get = True, se_strict_strtoul = (\<lambda>b. (0, 1))\<rparr> 1 ''1'' 1
     (mark_onoff 1 1 ex_state_off) = Some (- 11, mark_onoff 1 1 ex_state_off) \<and>
   online_store ex_fsm \<lparr>se_try_module_get = True, se_strict_strtoul = (\<lambda>b. (0, 0))\<rparr> 1 ''0'' 1
     (mark_onoff 1 7 ex_state_drv) = Some (- 11, mark_onoff 1 7 ex_state_drv)"
  using online_store_in_flight[of ex_state_off 1
        "ex_dev\<lparr>cdev_drv := Some ex_drv, cdev_online := False,
                priv_state := DEV_STATE_OFFLINE, cdev_refcount := 1\<rparr>" ex_fsm
        "\<lparr>se_try_module_get = True, se_strict_strtoul = (\<lambda>b. (0, 1))\<rparr>" "''1''" 1]
    online_store_in_flight[of "mark_onoff 1 7 ex_state_drv" 1
        "ex_dev\<lparr>cdev_drv := Some ex_drv, priv_onoff := 7\<rparr>" ex_fsm
        "\<lparr>se_try_module_get = True, se_strict_strtoul = (\<lambda>b. (0, 0))\<rparr>" "''0''" 1]
  by (simp add: EAGAIN_def ex_state_off_def ex_state_drv_def ex_dev_def mark_devices)

text \<open>With a request in flight on the offline device 1, a direct \<open>ccw_device_set_online\<close> is
  not rejected: it returns 0, sets the online flag and takes a reference.\<close>

theorem online_store_in_flight_counterexample:
  "map_option priv_onoff (ccw_devices (mark_onoff 1 1 ex_state_off) 1) = Some 1 \<and>
   online_of (mark_onoff 1 1 ex_state_off) 1 = Some False \<and>
   refcount_of (mark_onoff 1 1 ex_state_off) 1 = Some 1 \<and>
   (\<exists>s'. ccw_device_set_online ex_fsm (Some 1)
            (upd_cdev 1 (\<lambda>d. d\<lparr>cdev_drv := Some (ex_drv\<lparr>drv_set_online := Some 0\<rparr>)\<rparr>)
               (mark_onoff 1 1 ex_state_off)) = Some (0, s') \<and>
      online_of s' 1 = Some True \<and> refcount_of s' 1 = Some 2 \<and>
      map_option priv_state (ccw_devices s' 1) = Some DEV_STATE_ONLINE)"
  by (simp add: eval_defs ex_trans_defs mark_onoff_def)

end
